theory Spec2Isabelle
  imports Complex_Main "HOL-Library.Word"
begin

section \<open>Energy-optimised voice recognition firmware (ESP32): the engine and its calibrator\<close>

text \<open>
  The development embeds the class \<^verbatim>\<open>EnergyOptimizedVoiceML\<close> and the class
  \<^verbatim>\<open>EnergyCalibrator\<close> of the firmware. Conventions:
  \<^item> \<^verbatim>\<open>uint8_t\<close>, \<^verbatim>\<open>int16_t\<close> and \<^verbatim>\<open>uint32_t\<close> are words of that width;
    \<^verbatim>\<open>unsigned long\<close> is 32 bits wide on the ESP32, so the \<^verbatim>\<open>millis()\<close> arithmetic
    wraps modulo \<open>2 ^ 32\<close>.
  \<^item> A C \<^verbatim>\<open>float\<close> is the real number it denotes. Every \<^verbatim>\<open>float\<close> addition,
    multiplication and division rounds its exact result to binary32 (\<open>round32\<close>: 24
    significant bits, nearest, ties to even, gradual underflow), and a \<^verbatim>\<open>float\<close> literal
    is the rounded decimal. Each operation rounds on its own (no fused multiply-add).
    Infinities and NaN are not values of the model: a result beyond the largest binary32
    number stays finite, and a division by zero yields 0.
  \<^item> The battery voltage is computed in \<^verbatim>\<open>double\<close> from the ADC reading and only compared
    afterwards; it and the breakpoints it is compared with are exact reals.
  \<^item> What the hardware answers during one call (the clock, the button, the ADC, the I2S
    driver, the interpreter) is an argument of type \<open>hw_input\<close>; one value of it stands
    for one loop cycle, so a driver call repeated within a cycle gets the same answer.
  \<^item> The calls the firmware issues to the platform are appended to the field
    \<open>hw_calls\<close>, oldest first.
  \<^item> \<^verbatim>\<open>esp_deep_sleep_start()\<close> does not return: a function that may reach it returns an
    \<open>outcome\<close>, and nothing runs after \<open>DeepSleep\<close>.
  \<^item> The build defines \<^verbatim>\<open>ARDUINO_TENSORFLOW_LITE\<close> (platformio.ini), so the
    \<^verbatim>\<open>TFLITE_AVAILABLE\<close> branches are the ones embedded. Serial output and pin
    configuration change no field of the engine and are left out.
  \<^item> The contents of the two buffers after allocation, indeterminate in C, are zeros here;
    the engine reads a sample only after \<^verbatim>\<open>smart_audio_capture\<close> has written it.
\<close>

subsection \<open>Configuration constants\<close>

abbreviation AUDIO_SAMPLE_RATE :: "32 word" where "AUDIO_SAMPLE_RATE \<equiv> 16000"
abbreviation AUDIO_BUFFER_SIZE :: "32 word" where "AUDIO_BUFFER_SIZE \<equiv> 1024"
abbreviation INPUT_FEATURES :: nat where "INPUT_FEATURES \<equiv> 1024"
abbreviation OUTPUT_CLASSES :: nat where "OUTPUT_CLASSES \<equiv> 4"
abbreviation CLASS_SILENCE :: int where "CLASS_SILENCE \<equiv> 0"

abbreviation SILENCE_TIMEOUT_MS :: "32 word" where "SILENCE_TIMEOUT_MS \<equiv> 2000"
abbreviation DEEP_SLEEP_TIMEOUT_MS :: "32 word" where "DEEP_SLEEP_TIMEOUT_MS \<equiv> 5000"
abbreviation INFERENCE_SKIP_COUNT :: "8 word" where "INFERENCE_SKIP_COUNT \<equiv> 3"
abbreviation MIC_LOW_POWER_SAMPLE_RATE :: "32 word" where "MIC_LOW_POWER_SAMPLE_RATE \<equiv> 8000"
abbreviation MIC_NORMAL_SAMPLE_RATE :: "32 word" where "MIC_NORMAL_SAMPLE_RATE \<equiv> 16000"
abbreviation MIC_BUFFER_REDUCTION :: "32 word" where "MIC_BUFFER_REDUCTION \<equiv> 4"
abbreviation BATTERY_LOW_VOLTAGE :: real where "BATTERY_LOW_VOLTAGE \<equiv> 3.3"

subsection \<open>Single-precision arithmetic\<close>

text \<open>
  A binary32 number is a multiple of its unit in the last place, \<open>2 ^ e / 2 ^ 149\<close>, by an
  integer below \<open>2 ^ 24\<close> in magnitude. \<open>ulp_search k a\<close> is the largest \<open>e \<le> k\<close> with
  \<open>2 ^ (e + 23) \<le> a * 2 ^ 149\<close>, or 0 (the subnormal range) when there is none; the
  largest exponent of the format is \<open>e = 253\<close>.
\<close>

primrec ulp_search :: "nat \<Rightarrow> real \<Rightarrow> nat" where
  "ulp_search 0 a = 0"
| "ulp_search (Suc k) a = (if 2 ^ (Suc k + 23) \<le> a * 2 ^ 149 then Suc k else ulp_search k a)"

definition f32_exponent :: "real \<Rightarrow> nat" where
  "f32_exponent x = ulp_search 253 \<bar>x\<bar>"

definition round_half_even :: "real \<Rightarrow> int" where
  "round_half_even q =
     (let f = \<lfloor>q\<rfloor>; d = q - of_int f
      in if d < 1 / 2 then f else if d > 1 / 2 then f + 1 else if even f then f else f + 1)"

definition round32 :: "real \<Rightarrow> real" where
  "round32 x =
     (let e = f32_exponent x
      in of_int (round_half_even (x * 2 ^ 149 / 2 ^ e)) * 2 ^ e / 2 ^ 149)"

definition fadd :: "real \<Rightarrow> real \<Rightarrow> real" where
  "fadd a b = round32 (a + b)"

definition fmul :: "real \<Rightarrow> real \<Rightarrow> real" where
  "fmul a b = round32 (a * b)"

definition fdiv :: "real \<Rightarrow> real \<Rightarrow> real" where
  "fdiv a b = round32 (a / b)"

text \<open>The two \<^verbatim>\<open>float\<close> thresholds, \<^verbatim>\<open>0.7f\<close> and \<^verbatim>\<open>0.002f\<close>.\<close>

definition CONFIDENCE_THRESHOLD :: real where
  "CONFIDENCE_THRESHOLD = round32 0.7"

definition VOICE_DETECTION_THRESHOLD :: real where
  "VOICE_DETECTION_THRESHOLD = round32 0.002"

subsection \<open>Data\<close>

datatype EnergyMode =
  ENERGY_ACTIVE | ENERGY_BALANCED | ENERGY_ECO | ENERGY_ULTRA_ECO | ENERGY_DEEP_SLEEP

text \<open>The enumerators' values, which the firmware compares with \<open><\<close> and \<open>>\<close>.\<close>

fun mode_value :: "EnergyMode \<Rightarrow> nat" where
  "mode_value ENERGY_ACTIVE = 0"
| "mode_value ENERGY_BALANCED = 1"
| "mode_value ENERGY_ECO = 2"
| "mode_value ENERGY_ULTRA_ECO = 3"
| "mode_value ENERGY_DEEP_SLEEP = 4"

datatype BatteryLevel = BATTERY_FULL | BATTERY_GOOD | BATTERY_LOW | BATTERY_CRITICAL

fun level_value :: "BatteryLevel \<Rightarrow> nat" where
  "level_value BATTERY_FULL = 0"
| "level_value BATTERY_GOOD = 1"
| "level_value BATTERY_LOW = 2"
| "level_value BATTERY_CRITICAL = 3"

record energy_metrics_t =
  inference_time_us :: "32 word"
  mic_active_time_ms :: "32 word"
  total_sleep_time_ms :: "32 word"
  power_consumption_mw :: real
  battery_voltage :: real
  battery_level :: BatteryLevel
  confidence :: real
  predicted_class :: int
  voice_detected :: bool
  total_inferences :: "32 word"
  skipped_inferences :: "32 word"
  consecutive_silence :: "8 word"

text \<open>Calls to the platform that the properties below speak about.\<close>

datatype hw_call =
  SetCpuFrequencyMhz nat
| I2sDriverInstall "32 word"
| I2sDriverUninstall
| I2sRead nat
| EspPmConfigure nat nat
| FreeBuffers
| EspDeepSleepStart
| EspLightSleepStart nat
| Delay nat
| LedFlash
| InterpreterInvoke

text \<open>
  The engine. \<open>preprocessed_audio\<close> is \<open>None\<close> when \<^verbatim>\<open>malloc\<close> returned the null
  pointer. The last three 32-bit fields are the function-local \<^verbatim>\<open>static\<close> variables of
  \<^verbatim>\<open>run\<close> and \<^verbatim>\<open>should_process_audio\<close>.
\<close>

record engine =
  audio_buffer :: "16 word list"
  preprocessed_audio :: "real list option"
  current_buffer_size :: "32 word"
  current_sample_rate :: "32 word"
  metrics :: energy_metrics_t
  current_energy_mode :: EnergyMode
  last_activity_time :: "32 word"
  last_voice_time :: "32 word"
  mic_start_time :: "32 word"
  mic_active :: bool
  i2s_installed :: bool
  adaptive_mode_enabled :: bool
  inference_skip_counter :: "8 word"
  model_loaded :: bool
  last_battery_check :: "32 word"
  last_energy_report :: "32 word"
  last_audio_process :: "32 word"
  hw_calls :: "hw_call list"

text \<open>
  The answers of the platform during one cycle: \<^verbatim>\<open>millis()\<close> at the start of the cycle,
  at the start and at the end of the capture, the button level, the raw ADC reading, the
  results of \<^verbatim>\<open>i2s_driver_install\<close>, \<^verbatim>\<open>i2s_set_pin\<close> and \<^verbatim>\<open>i2s_read\<close> with the
  samples read, the result of model loading, the output tensor of
  \<^verbatim>\<open>interpreter->Invoke()\<close> (\<open>None\<close> when it fails) and the measured inference time.
\<close>

record hw_input =
  millis_now :: "32 word"
  millis_capture_start :: "32 word"
  millis_capture_end :: "32 word"
  button_low :: bool
  adc_raw :: "32 word"
  i2s_install_ok :: bool
  i2s_set_pin_ok :: bool
  i2s_read_ok :: bool
  i2s_samples :: "16 word list"
  tensorflow_setup_ok :: bool
  invoke_output :: "(nat \<Rightarrow> real) option"
  inference_us :: "32 word"

datatype outcome = Continue engine | DeepSleep engine

fun engine_of :: "outcome \<Rightarrow> engine" where
  "engine_of (Continue s) = s"
| "engine_of (DeepSleep s) = s"

fun is_deep_sleep :: "outcome \<Rightarrow> bool" where
  "is_deep_sleep (Continue s) = False"
| "is_deep_sleep (DeepSleep s) = True"

text \<open>Sequencing: what follows a call runs only when the call returned.\<close>

fun and_then :: "outcome \<Rightarrow> (engine \<Rightarrow> outcome) \<Rightarrow> outcome" where
  "and_then (Continue s) f = f s"
| "and_then (DeepSleep s) f = DeepSleep s"

definition issue :: "hw_call \<Rightarrow> engine \<Rightarrow> engine" where
  "issue c s = s\<lparr>hw_calls := hw_calls s @ [c]\<rparr>"

subsection \<open>Construction\<close>

definition zero_metrics :: energy_metrics_t where
  "zero_metrics = \<lparr>inference_time_us = 0, mic_active_time_ms = 0, total_sleep_time_ms = 0,
     power_consumption_mw = 0, battery_voltage = 0, battery_level = BATTERY_FULL,
     confidence = 0, predicted_class = 0, voice_detected = False, total_inferences = 0,
     skipped_inferences = 0, consecutive_silence = 0\<rparr>"

text \<open>
  The constructor, given the two readings of \<^verbatim>\<open>millis()\<close> and whether the feature buffer
  was allocated. \<^verbatim>\<open>memset\<close> zeroes the metrics, which makes the battery level
  \<open>BATTERY_FULL\<close>, the enumerator of value 0.
\<close>

definition new_engine :: "32 word \<Rightarrow> 32 word \<Rightarrow> bool \<Rightarrow> engine" where
  "new_engine t_activity t_voice features_allocated =
     \<lparr>audio_buffer = replicate (unat AUDIO_BUFFER_SIZE) 0,
      preprocessed_audio = (if features_allocated then Some (replicate INPUT_FEATURES 0) else None),
      current_buffer_size = AUDIO_BUFFER_SIZE div MIC_BUFFER_REDUCTION,
      current_sample_rate = MIC_LOW_POWER_SAMPLE_RATE,
      metrics = zero_metrics,
      current_energy_mode = ENERGY_ULTRA_ECO,
      last_activity_time = t_activity,
      last_voice_time = t_voice,
      mic_start_time = 0,
      mic_active = False,
      i2s_installed = False,
      adaptive_mode_enabled = True,
      inference_skip_counter = 0,
      model_loaded = False,
      last_battery_check = 0,
      last_energy_report = 0,
      last_audio_process = 0,
      hw_calls = []\<rparr>"

subsection \<open>The microphone driver\<close>

definition setup_adaptive_i2s :: "hw_input \<Rightarrow> engine \<Rightarrow> bool \<times> engine" where
  "setup_adaptive_i2s hw s =
     (let s1 = (if i2s_installed s then (issue I2sDriverUninstall s)\<lparr>i2s_installed := False\<rparr> else s);
          s2 = issue (I2sDriverInstall (current_sample_rate s1)) s1
      in if \<not> i2s_install_ok hw then (False, s2)
         else if \<not> i2s_set_pin_ok hw then (False, s2)
         else (True, s2\<lparr>i2s_installed := True\<rparr>))"

definition reconfigure_i2s :: "hw_input \<Rightarrow> engine \<Rightarrow> engine" where
  "reconfigure_i2s hw s =
     (if mic_active s
      then (snd (setup_adaptive_i2s hw (s\<lparr>mic_active := False\<rparr>)))\<lparr>mic_active := True\<rparr>
      else s)"

definition ensure_mic_active :: "hw_input \<Rightarrow> engine \<Rightarrow> bool \<times> engine" where
  "ensure_mic_active hw s =
     (if mic_active s then (True, s)
      else case setup_adaptive_i2s hw s of
             (False, s1) \<Rightarrow> (False, s1)
           | (True, s1) \<Rightarrow> (True, s1\<lparr>mic_active := True\<rparr>))"

definition cleanup_resources :: "engine \<Rightarrow> engine" where
  "cleanup_resources s =
     (let s1 = (if mic_active s \<and> i2s_installed s
                then (issue I2sDriverUninstall s)\<lparr>i2s_installed := False\<rparr> else s)
      in issue FreeBuffers (s1\<lparr>mic_active := False\<rparr>))"

subsection \<open>The energy modes\<close>

definition set_energy_mode :: "hw_input \<Rightarrow> EnergyMode \<Rightarrow> engine \<Rightarrow> outcome" where
  "set_energy_mode hw mode s =
     (if current_energy_mode s = mode then Continue s
      else
        let s1 = s\<lparr>current_energy_mode := mode\<rparr>;
            reconf = (\<lambda>s2. Continue (if mic_active s2 then reconfigure_i2s hw s2 else s2))
        in case mode of
             ENERGY_ACTIVE \<Rightarrow>
               reconf ((issue (SetCpuFrequencyMhz 240) s1)
                 \<lparr>current_sample_rate := AUDIO_SAMPLE_RATE,
                  current_buffer_size := AUDIO_BUFFER_SIZE,
                  metrics := (metrics s1)\<lparr>power_consumption_mw := 180\<rparr>\<rparr>)
           | ENERGY_BALANCED \<Rightarrow>
               reconf ((issue (SetCpuFrequencyMhz 160) s1)
                 \<lparr>current_sample_rate := MIC_NORMAL_SAMPLE_RATE,
                  current_buffer_size := AUDIO_BUFFER_SIZE div 2,
                  metrics := (metrics s1)\<lparr>power_consumption_mw := 120\<rparr>\<rparr>)
           | ENERGY_ECO \<Rightarrow>
               reconf ((issue (SetCpuFrequencyMhz 80) s1)
                 \<lparr>current_sample_rate := MIC_LOW_POWER_SAMPLE_RATE,
                  current_buffer_size := AUDIO_BUFFER_SIZE div 4,
                  metrics := (metrics s1)\<lparr>power_consumption_mw := 60\<rparr>\<rparr>)
           | ENERGY_ULTRA_ECO \<Rightarrow>
               reconf ((issue (SetCpuFrequencyMhz 40) s1)
                 \<lparr>current_sample_rate := MIC_LOW_POWER_SAMPLE_RATE,
                  current_buffer_size := AUDIO_BUFFER_SIZE div 8,
                  metrics := (metrics s1)\<lparr>power_consumption_mw := 25\<rparr>\<rparr>)
           | ENERGY_DEEP_SLEEP \<Rightarrow>
               DeepSleep (issue EspDeepSleepStart (cleanup_resources s1)))"

subsection \<open>The battery\<close>

text \<open>The classification of \<^verbatim>\<open>update_battery_status\<close>, by the voltage.\<close>

definition classify_battery :: "real \<Rightarrow> BatteryLevel" where
  "classify_battery v =
     (if v > 4.0 then BATTERY_FULL
      else if v > 3.7 then BATTERY_GOOD
      else if v > BATTERY_LOW_VOLTAGE then BATTERY_LOW
      else BATTERY_CRITICAL)"

definition update_battery_status :: "hw_input \<Rightarrow> engine \<Rightarrow> outcome" where
  "update_battery_status hw s =
     (let v = (real (unat (adc_raw hw)) * 3.3 * 2.0) / 4095.0;
          s1 = s\<lparr>metrics := (metrics s)\<lparr>battery_voltage := v\<rparr>\<rparr>;
          s2 = s1\<lparr>metrics := (metrics s1)\<lparr>battery_level := classify_battery v\<rparr>\<rparr>
      in if battery_level (metrics s2) = BATTERY_CRITICAL then set_energy_mode hw ENERGY_DEEP_SLEEP s2
         else if battery_level (metrics s2) = BATTERY_LOW then set_energy_mode hw ENERGY_ULTRA_ECO s2
         else Continue s2)"

definition manage_energy_modes :: "hw_input \<Rightarrow> 32 word \<Rightarrow> engine \<Rightarrow> outcome" where
  "manage_energy_modes hw current_time s =
     (let idle_time = current_time - last_activity_time s;
          voice_idle_time = current_time - last_voice_time s
      in if button_low hw then
           and_then (set_energy_mode hw ENERGY_ACTIVE s)
             (\<lambda>s1. Continue (s1\<lparr>last_activity_time := current_time\<rparr>))
         else if voice_detected (metrics s) then
           (let s1 = s\<lparr>last_voice_time := current_time\<rparr>
            in if mode_value (current_energy_mode s1) > mode_value ENERGY_BALANCED
               then set_energy_mode hw ENERGY_BALANCED s1 else Continue s1)
         else if voice_idle_time > DEEP_SLEEP_TIMEOUT_MS then
           (if level_value (battery_level (metrics s)) \<le> level_value BATTERY_LOW
            then set_energy_mode hw ENERGY_DEEP_SLEEP s
            else set_energy_mode hw ENERGY_ULTRA_ECO s)
         else if idle_time > SILENCE_TIMEOUT_MS then
           (if mode_value (current_energy_mode s) < mode_value ENERGY_ECO
            then set_energy_mode hw ENERGY_ECO s else Continue s)
         else Continue s)"

subsection \<open>Capture, preprocessing and the inference gate\<close>

definition should_process_audio :: "32 word \<Rightarrow> engine \<Rightarrow> bool \<times> engine" where
  "should_process_audio current_time s =
     (if current_energy_mode s = ENERGY_ACTIVE then (True, s)
      else
        let interval = (case current_energy_mode s of
                          ENERGY_ECO \<Rightarrow> (200 :: 32 word)
                        | ENERGY_ULTRA_ECO \<Rightarrow> 500
                        | _ \<Rightarrow> 100)
        in if current_time - last_audio_process s \<ge> interval
           then (True, s\<lparr>last_audio_process := current_time\<rparr>)
           else (False, s))"

text \<open>
  \<^verbatim>\<open>i2s_read\<close> is asked for \<open>current_buffer_size\<close> samples and stores the samples it
  read at the start of the audio buffer; \<open>i2s_samples\<close> holds whole 16-bit samples, so
  \<^verbatim>\<open>bytes_read\<close> is twice their number.
\<close>

definition smart_audio_capture :: "hw_input \<Rightarrow> engine \<Rightarrow> bool \<times> engine" where
  "smart_audio_capture hw s =
     (let (active, s1) = ensure_mic_active hw s
      in if \<not> active then (False, s1)
         else
           let s2 = s1\<lparr>mic_start_time := millis_capture_start hw\<rparr>;
               n = unat (current_buffer_size s2);
               samples = take n (i2s_samples hw);
               samples_read = length samples;
               s3 = (issue (I2sRead (n * 2)) s2)
                      \<lparr>audio_buffer := samples @ drop samples_read (audio_buffer s2)\<rparr>;
               s4 = s3\<lparr>metrics := (metrics s3)\<lparr>mic_active_time_ms :=
                      mic_active_time_ms (metrics s3) + (millis_capture_end hw - mic_start_time s3)\<rparr>\<rparr>
           in if \<not> i2s_read_ok hw \<or> samples_read = 0 then (False, s4)
              else if samples_read < n
              then (True, s4\<lparr>audio_buffer := take samples_read (audio_buffer s4)
                      @ replicate (n - samples_read) 0 @ drop n (audio_buffer s4)\<rparr>)
              else (True, s4))"

text \<open>
  The energy loop of \<^verbatim>\<open>preprocess_audio_efficient\<close> over the first
  \<open>samples_to_process\<close> entries of the buffer, and the comparison with the threshold.
\<close>

definition samples_to_process :: "engine \<Rightarrow> nat" where
  "samples_to_process s = min (unat (current_buffer_size s)) INPUT_FEATURES"

definition voice_energy :: "16 word list \<Rightarrow> nat \<Rightarrow> real" where
  "voice_energy buf n =
     fdiv (foldl (\<lambda>energy x. let sample = fdiv (real_of_int (sint x)) 32768
                              in fadd energy (fmul sample sample))
             0 (take n buf))
       (real n)"

definition preprocess_audio_efficient :: "engine \<Rightarrow> bool \<times> engine" where
  "preprocess_audio_efficient s =
     (if preprocessed_audio s = None then (False, s)
      else
        let n = samples_to_process s;
            energy = voice_energy (audio_buffer s) n;
            features = map (\<lambda>x. fmul (fdiv (real_of_int (sint x)) 32768) 0.5)
                         (take n (audio_buffer s));
            s1 = s\<lparr>metrics := (metrics s)\<lparr>voice_detected := (energy > VOICE_DETECTION_THRESHOLD)\<rparr>\<rparr>;
            s2 = (if \<not> voice_detected (metrics s1) then
                    let s1a = s1\<lparr>metrics := (metrics s1)\<lparr>consecutive_silence :=
                                 consecutive_silence (metrics s1) + 1\<rparr>\<rparr>
                    in if consecutive_silence (metrics s1a) > 10 then
                         let s1b = s1a\<lparr>mic_active := False\<rparr>
                         in if i2s_installed s1b
                            then (issue I2sDriverUninstall s1b)\<lparr>i2s_installed := False\<rparr>
                            else s1b
                       else s1a
                  else s1\<lparr>metrics := (metrics s1)\<lparr>consecutive_silence := 0\<rparr>\<rparr>);
            s3 = s2\<lparr>preprocessed_audio := Some (features @ replicate (INPUT_FEATURES - n) 0)\<rparr>
        in (voice_detected (metrics s3), s3))"

definition should_run_inference :: "engine \<Rightarrow> bool \<times> engine" where
  "should_run_inference s =
     (if current_energy_mode s = ENERGY_ACTIVE then (True, s)
      else if \<not> voice_detected (metrics s) then
        let s1 = s\<lparr>inference_skip_counter := inference_skip_counter s + 1\<rparr>
        in if inference_skip_counter s1 < INFERENCE_SKIP_COUNT then (False, s1)
           else (True, s1\<lparr>inference_skip_counter := 0\<rparr>)
      else (True, s\<lparr>inference_skip_counter := 0\<rparr>))"

subsection \<open>Inference, results and sleeping\<close>

definition run_energy_inference :: "hw_input \<Rightarrow> engine \<Rightarrow> bool \<times> engine" where
  "run_energy_inference hw s =
     (if \<not> model_loaded s then
        (let s1 = issue (Delay 1) s;
             s2 = s1\<lparr>metrics := (metrics s1)\<lparr>predicted_class := CLASS_SILENCE,
                      confidence := round32 0.8\<rparr>\<rparr>
         in (True, s2\<lparr>metrics := (metrics s2)\<lparr>inference_time_us := inference_us hw\<rparr>\<rparr>))
      else
        let s1 = issue InterpreterInvoke s
        in case invoke_output hw of
             None \<Rightarrow> (False, s1)
           | Some out \<Rightarrow>
               let (max_prob, predicted) =
                     foldl (\<lambda>(max_prob, predicted) i.
                              if out i > max_prob then (out i, int i) else (max_prob, predicted))
                       (out 0, 0) [1..<OUTPUT_CLASSES];
                   s2 = s1\<lparr>metrics := (metrics s1)\<lparr>predicted_class := predicted, confidence := max_prob\<rparr>\<rparr>
               in (True, s2\<lparr>metrics := (metrics s2)\<lparr>inference_time_us := inference_us hw\<rparr>\<rparr>))"

definition process_results_efficient :: "engine \<Rightarrow> engine" where
  "process_results_efficient s =
     (if confidence (metrics s) > CONFIDENCE_THRESHOLD \<and> predicted_class (metrics s) > 0
      then issue LedFlash s else s)"

definition adaptive_sleep :: "engine \<Rightarrow> engine" where
  "adaptive_sleep s =
     (case current_energy_mode s of
        ENERGY_ACTIVE \<Rightarrow> issue (Delay 5) s
      | ENERGY_BALANCED \<Rightarrow> issue (Delay 10) s
      | ENERGY_ECO \<Rightarrow> issue (Delay 50) s
      | ENERGY_ULTRA_ECO \<Rightarrow>
          if \<not> voice_detected (metrics s) \<and> consecutive_silence (metrics s) > 5
          then (let s1 = issue (EspLightSleepStart 100) s
                in s1\<lparr>metrics := (metrics s1)\<lparr>total_sleep_time_ms :=
                       total_sleep_time_ms (metrics s1) + 100\<rparr>\<rparr>)
          else issue (Delay 100) s
      | ENERGY_DEEP_SLEEP \<Rightarrow> issue (Delay 10) s)"

subsection \<open>Initialisation and the loop body\<close>

text \<open>
  \<^verbatim>\<open>initialize\<close> always returns \<^verbatim>\<open>true\<close> when it returns, so its result is the outcome
  alone. \<^verbatim>\<open>setup_energy_tensorflow\<close> sets \<open>model_loaded\<close> when the platform loads the
  model.
\<close>

definition initialize :: "hw_input \<Rightarrow> engine \<Rightarrow> outcome" where
  "initialize hw s =
     (let s1 = issue (Delay 500) s;
          s2 = issue (EspPmConfigure 80 10) s1
      in and_then (update_battery_status hw s2)
           (\<lambda>s3. let s4 = (if tensorflow_setup_ok hw then s3\<lparr>model_loaded := True\<rparr> else s3)
                 in set_energy_mode hw ENERGY_ULTRA_ECO s4))"

text \<open>The audio pipeline of \<^verbatim>\<open>run\<close>: the nested conditionals on the five stages.\<close>

definition process_audio :: "hw_input \<Rightarrow> 32 word \<Rightarrow> engine \<Rightarrow> engine" where
  "process_audio hw current_time s =
     (let (due, a) = should_process_audio current_time s
      in if \<not> due then a
         else
           let (captured, b) = smart_audio_capture hw a
           in if \<not> captured then b
              else
                let (voice, c) = preprocess_audio_efficient b
                in if \<not> voice then c
                   else
                     let (go, d) = should_run_inference c
                     in if \<not> go
                        then d\<lparr>metrics := (metrics d)\<lparr>skipped_inferences :=
                               skipped_inferences (metrics d) + 1\<rparr>\<rparr>
                        else
                          let (done, e) = run_energy_inference hw d
                          in if \<not> done then e
                             else
                               let f = process_results_efficient e
                               in f\<lparr>metrics := (metrics f)\<lparr>total_inferences :=
                                      total_inferences (metrics f) + 1\<rparr>,
                                    last_activity_time := current_time\<rparr>)"

definition run :: "hw_input \<Rightarrow> engine \<Rightarrow> outcome" where
  "run hw s =
     (let current_time = millis_now hw;
          checked =
            (if current_time - last_battery_check s > 30000
             then and_then (update_battery_status hw s)
                    (\<lambda>s1. Continue (s1\<lparr>last_battery_check := current_time\<rparr>))
             else Continue s)
      in and_then checked (\<lambda>s1.
         and_then (manage_energy_modes hw current_time s1) (\<lambda>s2.
           let s3 = process_audio hw current_time s2;
               s4 = (if current_time - last_energy_report s3 > 15000
                     then s3\<lparr>last_energy_report := current_time\<rparr> else s3)
           in Continue (adaptive_sleep s4))))"

subsection \<open>The calibrator\<close>

record EnergyCalibrator =
  baseline_consumption :: real
  calibration_samples :: "32 word"
  calibrated :: bool

definition new_calibrator :: EnergyCalibrator where
  "new_calibrator = \<lparr>baseline_consumption = 0, calibration_samples = 0, calibrated = False\<rparr>"

definition add_sample :: "EnergyCalibrator \<Rightarrow> real \<Rightarrow> EnergyCalibrator" where
  "add_sample c consumption =
     (if calibration_samples c < 100 then
        let c1 = c\<lparr>baseline_consumption := fadd (baseline_consumption c) consumption\<rparr>;
            c2 = c1\<lparr>calibration_samples := calibration_samples c1 + 1\<rparr>
        in if calibration_samples c2 = 100
           then c2\<lparr>baseline_consumption := fdiv (baseline_consumption c2) 100,
                  calibrated := True\<rparr>
           else c2
      else c)"

definition is_calibrated :: "EnergyCalibrator \<Rightarrow> bool" where
  "is_calibrated c = calibrated c"

definition get_baseline :: "EnergyCalibrator \<Rightarrow> real" where
  "get_baseline c = baseline_consumption c"

definition calculate_efficiency :: "EnergyCalibrator \<Rightarrow> real \<Rightarrow> real" where
  "calculate_efficiency c current_consumption =
     (if \<not> calibrated c then 0
      else fmul (fdiv (baseline_consumption c) current_consumption) 100)"

subsection \<open>The mean square of a buffer, in exact arithmetic\<close>

text \<open>
  The quantity the specification names: the mean of the squares of the first \<open>n\<close>
  samples, each divided by 32768, as a real number and without any rounding.
\<close>

definition mean_square :: "16 word list \<Rightarrow> nat \<Rightarrow> real" where
  "mean_square buf n =
     sum_list (map (\<lambda>x. (real_of_int (sint x) / 32768) ^ 2) (take n buf)) / real n"

text \<open>
  The same quantity in the words of the specification but in the arithmetic of the code:
  the squares of the normalised samples, summed in order and divided by their number, every
  operation in single precision.
\<close>

definition mean_square32 :: "16 word list \<Rightarrow> nat \<Rightarrow> real" where
  "mean_square32 buf n =
     fdiv (foldl fadd 0
             (map (\<lambda>x. fmul (fdiv (real_of_int (sint x)) 32768) (fdiv (real_of_int (sint x)) 32768))
                (take n buf)))
       (real n)"

text \<open>
  A run of the energy loop in which no operation rounds. The energy so far is
  \<open>scaled30 S\<close> for an integer \<open>S\<close>, and every square and every partial sum, as such
  an integer, is either below \<open>2 ^ 24\<close> or a multiple of 64 below \<open>2 ^ 30\<close>.
\<close>

definition scaled30 :: "int \<Rightarrow> real" where
  "scaled30 S = of_int S / 2 ^ 30"

definition fits24 :: "int \<Rightarrow> bool" where
  "fits24 z = (\<bar>z\<bar> < 2 ^ 24 \<or> (z mod 64 = 0 \<and> \<bar>z\<bar> < 2 ^ 30))"

fun exact_run :: "int \<Rightarrow> 16 word list \<Rightarrow> bool" where
  "exact_run S [] = True"
| "exact_run S (x # xs) =
     (fits24 (sint x * sint x) \<and> fits24 (S + sint x * sint x)
      \<and> exact_run (S + sint x * sint x) xs)"

subsection \<open>Repeated calls\<close>

text \<open>\<open>n\<close> consecutive calls of the inference gate: the results in order, and the last state.\<close>

fun gate_calls :: "nat \<Rightarrow> engine \<Rightarrow> bool list \<times> engine" where
  "gate_calls 0 s = ([], s)"
| "gate_calls (Suc n) s =
     (let (r, s1) = should_run_inference s; (rs, s2) = gate_calls n s1 in (r # rs, s2))"

text \<open>
  Consecutive preprocessing passes, one for each captured buffer of the list: the buffer is
  what the capture left in \<open>audio_buffer\<close>, then \<^verbatim>\<open>preprocess_audio_efficient\<close> runs.
\<close>

fun preprocess_passes :: "16 word list list \<Rightarrow> engine \<Rightarrow> engine" where
  "preprocess_passes [] s = s"
| "preprocess_passes (b # bs) s =
     preprocess_passes bs (snd (preprocess_audio_efficient (s\<lparr>audio_buffer := b\<rparr>)))"

subsection \<open>Concrete inputs\<close>

text \<open>
  A cycle at time \<open>t\<close> in which the button is up, the ADC reads 2600 (about 4.19 V),
  the I2S driver works and delivers the given samples, and no model is loaded.
\<close>

definition hw_at :: "32 word \<Rightarrow> 16 word list \<Rightarrow> hw_input" where
  "hw_at t samples =
     \<lparr>millis_now = t, millis_capture_start = t, millis_capture_end = t, button_low = False,
      adc_raw = 2600, i2s_install_ok = True, i2s_set_pin_ok = True, i2s_read_ok = True,
      i2s_samples = samples, tensorflow_setup_ok = False, invoke_output = None,
      inference_us = 0\<rparr>"

text \<open>The engine after \<^verbatim>\<open>setup()\<close>: constructed and initialised at time 0.\<close>

definition booted :: engine where
  "booted = engine_of (initialize (hw_at 0 []) (new_engine 0 0 True))"

text \<open>The same engine in \<open>BALANCED\<close> mode with the battery level set to \<open>CRITICAL\<close>.\<close>

definition balanced_critical :: engine where
  "balanced_critical =
     booted\<lparr>metrics := (metrics booted)\<lparr>battery_level := BATTERY_CRITICAL\<rparr>,
       current_energy_mode := ENERGY_BALANCED\<rparr>"

text \<open>A buffer of silence, a buffer at half of full scale, and a cycle that captures silence.\<close>

definition silence :: "16 word list" where
  "silence = replicate 1024 0"

definition loud :: "16 word list" where
  "loud = replicate 1024 16384"

definition silent_cycle :: hw_input where
  "silent_cycle = hw_at 600 (replicate 256 0)"

text \<open>
  Two buffers for a capture of 256 samples. The squares of the first sum to
  \<open>8589935 * 64\<close>, so its mean square is \<open>8589935 / 2 ^ 32\<close>; the squares of the second
  sum to \<open>9019431 * 64\<close>, mean square \<open>9019431 / 2 ^ 32\<close>.
\<close>

definition at_threshold :: "16 word list" where
  "at_threshold = [3589, 63, 6, 1, 1, 16384, 16384] @ replicate 1017 0"

definition above_threshold :: "16 word list" where
  "above_threshold = [2611, 30, 4, 1, 1, 1, 4096, 4096, 16384, 16384] @ replicate 1014 0"

section \<open>Properties\<close>

subsection \<open>Single-precision arithmetic\<close>

lemma ulp_search_pos: "0 < ulp_search K a \<Longrightarrow> 2 ^ (ulp_search K a + 23) \<le> a * 2 ^ 149"
  by (induction K) (auto split: if_splits)

lemma ulp_search_eq:
  "k \<le> K \<Longrightarrow> (k = 0 \<or> 2 ^ (k + 23) \<le> a * 2 ^ 149) \<Longrightarrow> a * 2 ^ 149 < 2 ^ (k + 24)
     \<Longrightarrow> ulp_search K a = k"
proof (induction K)
  case 0
  then show ?case by simp
next
  case (Suc K)
  show ?case
  proof (cases "k = Suc K")
    case True
    with Suc.prems show ?thesis by simp
  next
    case False
    with Suc.prems have kK: "k \<le> K" by simp
    have "(2::real) ^ (k + 24) \<le> 2 ^ (Suc K + 23)"
      using kK by (intro power_increasing) auto
    with Suc.prems(3) have "\<not> 2 ^ (Suc K + 23) \<le> a * 2 ^ 149" by linarith
    with Suc.IH [OF kK Suc.prems(2) Suc.prems(3)] show ?thesis by simp
  qed
qed

lemma round_half_even_int: "round_half_even (of_int z) = z"
  by (simp add: round_half_even_def)

text \<open>A multiple of the unit in the last place is rounded to itself.\<close>

lemma dyadic_scaled:
  assumes "e + p \<le> N"
  shows "of_int (round_half_even (of_int m / 2 ^ p * 2 ^ N / 2 ^ e)) * 2 ^ e / 2 ^ N
           = (of_int m / 2 ^ p :: real)"
proof -
  have sq: "(2::real) ^ N = 2 ^ p * 2 ^ e * 2 ^ (N - p - e)"
    using assms by (simp add: power_add [symmetric])
  have q: "real_of_int m / 2 ^ p * 2 ^ N / 2 ^ e = of_int (m * 2 ^ (N - p - e))"
    by (simp add: sq)
  show ?thesis
    unfolding q round_half_even_int by (simp add: sq)
qed

lemma dyadic_exponent:
  assumes m: "\<bar>m\<bar> < 2 ^ 24" and p: "p \<le> N"
    and e: "e = 0 \<or> 2 ^ (e + 23) \<le> \<bar>real_of_int m / 2 ^ p\<bar> * 2 ^ N"
  shows "e + p \<le> N"
proof (cases "e = 0")
  case True
  with p show ?thesis by simp
next
  case False
  have sp: "(2::real) ^ N = 2 ^ p * 2 ^ (N - p)"
    using p by (simp add: power_add [symmetric])
  have am: "\<bar>real_of_int m\<bar> < 2 ^ 24"
    using m by (metis of_int_abs of_int_less_numeral_power_cancel_iff)
  from False e have "2 ^ (e + 23) \<le> \<bar>real_of_int m / 2 ^ p\<bar> * 2 ^ N" by simp
  also have "\<dots> = \<bar>real_of_int m\<bar> * 2 ^ (N - p)"
    by (simp add: sp abs_divide)
  also have "\<dots> < 2 ^ 24 * 2 ^ (N - p)"
    using am by simp
  also have "\<dots> = 2 ^ (24 + (N - p))" by (simp only: power_add)
  finally have "(2::real) ^ (e + 23) < 2 ^ (24 + (N - p))" .
  then have "e + 23 < 24 + (N - p)" by simp
  with p show ?thesis by linarith
qed

lemma round32_dyadic:
  assumes m: "\<bar>m\<bar> < 2 ^ 24" and p: "p \<le> 149"
  shows "round32 (of_int m / 2 ^ p) = of_int m / 2 ^ p"
proof -
  have "f32_exponent (of_int m / 2 ^ p) = 0
         \<or> 2 ^ (f32_exponent (of_int m / 2 ^ p) + 23) \<le> \<bar>real_of_int m / 2 ^ p\<bar> * 2 ^ 149"
    using ulp_search_pos [of 253 "\<bar>real_of_int m / 2 ^ p\<bar>"]
    unfolding f32_exponent_def by blast
  from dyadic_exponent [OF m p this]
  have "f32_exponent (of_int m / 2 ^ p) + p \<le> 149" .
  from dyadic_scaled [OF this, of m] show ?thesis
    unfolding round32_def Let_def .
qed

lemma round32_int: "\<bar>m\<bar> < 2 ^ 24 \<Longrightarrow> round32 (of_int m) = of_int m"
  using round32_dyadic [of m 0] by simp

lemma round32_0: "round32 0 = 0"
  using round32_int [of 0] by simp

text \<open>Rounding a number whose binade is known.\<close>

lemma round32_binade:
  assumes "k \<le> 253" "k = 0 \<or> 2 ^ (k + 23) \<le> \<bar>x\<bar> * 2 ^ 149" "\<bar>x\<bar> * 2 ^ 149 < 2 ^ (k + 24)"
  shows "round32 x = of_int (round_half_even (x * 2 ^ 149 / 2 ^ k)) * 2 ^ k / 2 ^ 149"
  using ulp_search_eq [OF assms] by (simp add: round32_def f32_exponent_def)

lemma threshold_value: "VOICE_DETECTION_THRESHOLD = 8589935 / 4294967296"
  using round32_binade [of 117 "0.002"]
  by (simp add: VOICE_DETECTION_THRESHOLD_def round_half_even_def)

lemma round32_0021: "round32 (21 / 10000) = 9019431 / 4294967296"
  using round32_binade [of 117 "21 / 10000"] by (simp add: round_half_even_def)

lemma round32_hundredth: "round32 (1 / 100) = 5368709 / 536870912"
  using round32_binade [of 119 "1 / 100"] by (simp add: round_half_even_def)

lemma fadd_0_0: "fadd 0 0 = 0"
  by (simp add: fadd_def round32_0)

lemma fadd_int: "\<bar>a + b\<bar> < 2 ^ 24 \<Longrightarrow> fadd (of_int a) (of_int b) = of_int (a + b)"
  using round32_int [of "a + b"] by (simp add: fadd_def)

subsection \<open>Mode transitions\<close>

text \<open>
  C6. \<^verbatim>\<open>set_energy_mode\<close> called with the current mode returns at once: the engine is the
  one it was given, so the mode, the sample rate, the buffer size and the power figure are
  unchanged, and no call reaches the platform (no I2S driver call, no frequency change).
\<close>

theorem set_energy_mode_idempotent:
  "set_energy_mode hw (current_energy_mode s) s = Continue s
   \<and> current_energy_mode (engine_of (set_energy_mode hw (current_energy_mode s) s)) = current_energy_mode s
   \<and> current_sample_rate (engine_of (set_energy_mode hw (current_energy_mode s) s)) = current_sample_rate s
   \<and> current_buffer_size (engine_of (set_energy_mode hw (current_energy_mode s) s)) = current_buffer_size s
   \<and> power_consumption_mw (metrics (engine_of (set_energy_mode hw (current_energy_mode s) s)))
       = power_consumption_mw (metrics s)
   \<and> hw_calls (engine_of (set_energy_mode hw (current_energy_mode s) s)) = hw_calls s"
  by (simp add: set_energy_mode_def)

subsection \<open>Battery classification\<close>

lemma update_battery_status_level:
  "battery_level (metrics (engine_of (update_battery_status hw s))) =
     classify_battery (real (unat (adc_raw hw)) * 3.3 * 2.0 / 4095.0)"
  by (simp add: update_battery_status_def set_energy_mode_def Let_def cleanup_resources_def
      issue_def reconfigure_i2s_def setup_adaptive_i2s_def)

text \<open>
  C3, as the code has it. The level is \<open>FULL\<close> iff \<open>v > 4.0\<close>, \<open>GOOD\<close> iff
  \<open>3.7 < v \<le> 4.0\<close>, \<open>LOW\<close> iff \<open>3.3 < v \<le> 3.7\<close> and \<open>CRITICAL\<close> iff \<open>v \<le> 3.3\<close>.
  The comparisons are strict, so each boundary voltage falls into the lower band: the ten
  voltages 4.1, 4.0, 3.9, 3.71, 3.7, 3.5, 3.31, 3.3, 3.0, 2.9 classify as
  FULL, GOOD, GOOD, GOOD, LOW, LOW, LOW, CRITICAL, CRITICAL, CRITICAL.
\<close>

theorem classify_battery_bands:
  "(classify_battery v = BATTERY_FULL \<longleftrightarrow> v > 4.0)
   \<and> (classify_battery v = BATTERY_GOOD \<longleftrightarrow> 3.7 < v \<and> v \<le> 4.0)
   \<and> (classify_battery v = BATTERY_LOW \<longleftrightarrow> 3.3 < v \<and> v \<le> 3.7)
   \<and> (classify_battery v = BATTERY_CRITICAL \<longleftrightarrow> v \<le> 3.3)
   \<and> map classify_battery [4.1, 4.0, 3.9, 3.71, 3.7, 3.5, 3.31, 3.3, 3.0, 2.9] =
       [BATTERY_FULL, BATTERY_GOOD, BATTERY_GOOD, BATTERY_GOOD, BATTERY_LOW, BATTERY_LOW,
        BATTERY_LOW, BATTERY_CRITICAL, BATTERY_CRITICAL, BATTERY_CRITICAL]"
  by (auto simp: classify_battery_def)

text \<open>
  C3 as stated lists \<open>GOOD\<close> for 3.7 V and \<open>LOW\<close> for 3.3 V. The classifier returns
  neither: 3.7 V is \<open>LOW\<close> and 3.3 V is \<open>CRITICAL\<close>.
\<close>

theorem classify_battery_boundary_counterexample:
  "classify_battery 3.7 \<noteq> BATTERY_GOOD \<and> classify_battery 3.3 \<noteq> BATTERY_LOW"
  by (simp add: classify_battery_def)

subsection \<open>The inference gate\<close>

lemma gate_silent_step:
  assumes "current_energy_mode s \<noteq> ENERGY_ACTIVE" "\<not> voice_detected (metrics s)"
  shows "inference_skip_counter s = 0 \<Longrightarrow>
           should_run_inference s = (False, s\<lparr>inference_skip_counter := 1\<rparr>)"
    and "inference_skip_counter s = 1 \<Longrightarrow>
           should_run_inference s = (False, s\<lparr>inference_skip_counter := 2\<rparr>)"
    and "inference_skip_counter s = 2 \<Longrightarrow>
           should_run_inference s = (True, s\<lparr>inference_skip_counter := 0\<rparr>)"
  using assms by (simp_all add: should_run_inference_def Let_def)

lemma gate_three:
  assumes "current_energy_mode s \<noteq> ENERGY_ACTIVE" "\<not> voice_detected (metrics s)"
    and "inference_skip_counter s = 0"
  shows "gate_calls 3 s = ([False, False, True], s)"
  using assms by (simp add: numeral_3_eq_3 gate_silent_step)

text \<open>With the skip counter at \<open>c\<close>, call number \<open>k\<close> (from 0) says yes iff \<open>k + c \<equiv> 2 (mod 3)\<close>.\<close>

lemma gate_pattern:
  assumes "current_energy_mode s \<noteq> ENERGY_ACTIVE" "\<not> voice_detected (metrics s)"
    and "c < 3" "inference_skip_counter s = of_nat c"
  shows "fst (gate_calls n s) = map (\<lambda>k. (k + c) mod 3 = 2) [0..<n]"
  using assms
proof (induction n arbitrary: s c)
  case 0
  then show ?case by simp
next
  case (Suc n)
  have upt: "[0..<Suc n] = 0 # map Suc [0..<n]"
    by (simp add: upt_conv_Cons map_Suc_upt del: upt_Suc)
  from Suc.prems(3) consider "c = 0" | "c = 1" | "c = 2" by linarith
  then show ?case
  proof cases
    case 1
    with Suc.prems have st: "should_run_inference s = (False, s\<lparr>inference_skip_counter := 1\<rparr>)"
      by (simp add: gate_silent_step)
    have "fst (gate_calls n (s\<lparr>inference_skip_counter := 1\<rparr>)) = map (\<lambda>k. (k + 1) mod 3 = 2) [0..<n]"
      using Suc.IH [of "s\<lparr>inference_skip_counter := 1\<rparr>" 1] Suc.prems by simp
    with st 1 show ?thesis
      by (simp add: upt split_beta comp_def del: upt_Suc)
  next
    case 2
    with Suc.prems have st: "should_run_inference s = (False, s\<lparr>inference_skip_counter := 2\<rparr>)"
      by (simp add: gate_silent_step)
    have "fst (gate_calls n (s\<lparr>inference_skip_counter := 2\<rparr>)) = map (\<lambda>k. (k + 2) mod 3 = 2) [0..<n]"
      using Suc.IH [of "s\<lparr>inference_skip_counter := 2\<rparr>" 2] Suc.prems by simp
    with st 2 show ?thesis
      by (simp add: upt split_beta comp_def del: upt_Suc)
  next
    case 3
    with Suc.prems have st: "should_run_inference s = (True, s\<lparr>inference_skip_counter := 0\<rparr>)"
      by (simp add: gate_silent_step)
    have "fst (gate_calls n (s\<lparr>inference_skip_counter := 0\<rparr>)) = map (\<lambda>k. (k + 0) mod 3 = 2) [0..<n]"
      using Suc.IH [of "s\<lparr>inference_skip_counter := 0\<rparr>" 0] Suc.prems by simp
    with st 3 show ?thesis
      by (simp add: upt split_beta comp_def del: upt_Suc)
  qed
qed

lemma gate_active:
  "current_energy_mode s = ENERGY_ACTIVE \<Longrightarrow> gate_calls n s = (replicate n True, s)"
  by (induction n) (simp_all add: should_run_inference_def)

text \<open>
  C4. Outside \<open>ACTIVE\<close>, with no voice detected and the skip counter at zero, three
  consecutive calls of \<^verbatim>\<open>should_run_inference\<close> answer no, no, yes and leave the engine as
  it was (the counter is back at zero), and in any number of consecutive calls exactly
  every third one answers yes. In \<open>ACTIVE\<close> every call answers yes and changes nothing.
\<close>

theorem should_run_inference_cycle:
  "(current_energy_mode s \<noteq> ENERGY_ACTIVE \<and> \<not> voice_detected (metrics s)
      \<and> inference_skip_counter s = 0 \<longrightarrow>
      gate_calls 3 s = ([False, False, True], s)
      \<and> (\<forall>n. fst (gate_calls n s) = map (\<lambda>k. k mod 3 = 2) [0..<n]))
   \<and> (current_energy_mode s = ENERGY_ACTIVE \<longrightarrow> (\<forall>n. gate_calls n s = (replicate n True, s)))"
  using gate_three [of s] gate_pattern [of s 0] gate_active [of s] by simp

theorem should_run_inference_cycle_witness:
  "gate_calls 3 (new_engine 0 0 True) = ([False, False, True], new_engine 0 0 True)
   \<and> fst (gate_calls 7 (new_engine 0 0 True)) = [False, False, True, False, False, True, False]
   \<and> gate_calls 2 ((new_engine 0 0 True)\<lparr>current_energy_mode := ENERGY_ACTIVE\<rparr>)
       = ([True, True], (new_engine 0 0 True)\<lparr>current_energy_mode := ENERGY_ACTIVE\<rparr>)"
proof -
  have a: "current_energy_mode (new_engine 0 0 True) \<noteq> ENERGY_ACTIVE
      \<and> \<not> voice_detected (metrics (new_engine 0 0 True))
      \<and> inference_skip_counter (new_engine 0 0 True) = 0"
    by (simp add: new_engine_def zero_metrics_def)
  have u: "[0..<7] = [0, 1, 2, 3, 4, 5, 6]" by (simp add: upt_rec)
  from a should_run_inference_cycle [of "new_engine 0 0 True"] have
    "gate_calls 3 (new_engine 0 0 True) = ([False, False, True], new_engine 0 0 True)"
    "fst (gate_calls 7 (new_engine 0 0 True)) = map (\<lambda>k. k mod 3 = 2) [0..<7]" by blast+
  moreover
  from should_run_inference_cycle [of "(new_engine 0 0 True)\<lparr>current_energy_mode := ENERGY_ACTIVE\<rparr>"]
  have "gate_calls 2 ((new_engine 0 0 True)\<lparr>current_energy_mode := ENERGY_ACTIVE\<rparr>)
       = (replicate 2 True, (new_engine 0 0 True)\<lparr>current_energy_mode := ENERGY_ACTIVE\<rparr>)"
    by simp
  ultimately show ?thesis by (simp add: u numeral_2_eq_2)
qed

subsection \<open>The calibrator\<close>

lemma add_sample_below:
  "length xs < 100 \<Longrightarrow> foldl add_sample new_calibrator xs =
     \<lparr>baseline_consumption = foldl fadd 0 xs, calibration_samples = of_nat (length xs),
      calibrated = False\<rparr>"
proof (induction xs rule: rev_induct)
  case Nil
  then show ?case by (simp add: new_calibrator_def)
next
  case (snoc x xs)
  then have n: "length xs < 99" by simp
  then have lt: "(of_nat (length xs) :: 32 word) < 100"
    by (simp add: word_less_nat_alt unat_of_nat)
  have ne: "(of_nat (length xs) :: 32 word) + 1 \<noteq> 100"
  proof
    assume "(of_nat (length xs) :: 32 word) + 1 = 100"
    then have "unat ((of_nat (length xs) :: 32 word) + 1) = unat (100 :: 32 word)" by simp
    with n show False by (simp add: unat_word_ariths unat_of_nat)
  qed
  from snoc n lt ne show ?case by (simp add: add_sample_def Let_def)
qed

lemma add_sample_hundredth:
  assumes "length xs = 99"
  shows "add_sample (foldl add_sample new_calibrator xs) x =
     \<lparr>baseline_consumption = fdiv (foldl fadd 0 (xs @ [x])) 100, calibration_samples = 100,
      calibrated = True\<rparr>"
  using assms by (simp add: add_sample_below add_sample_def Let_def)

lemma add_sample_saturated: "calibration_samples c = 100 \<Longrightarrow> add_sample c x = c"
  by (simp add: add_sample_def)

lemma foldl_add_sample_saturated:
  "calibration_samples c = 100 \<Longrightarrow> foldl add_sample c ys = c"
  by (induction ys) (simp_all add: add_sample_saturated)

lemma calibrated_after_100:
  assumes "length xs = 100"
  shows "foldl add_sample new_calibrator xs =
     \<lparr>baseline_consumption = fdiv (foldl fadd 0 xs) 100, calibration_samples = 100,
      calibrated = True\<rparr>"
proof -
  from assms obtain ys y where xs: "xs = ys @ [y]" and ys: "length ys = 99"
    by (cases xs rule: rev_cases) auto
  show ?thesis using add_sample_hundredth [OF ys, of y] by (simp add: xs)
qed

lemma foldl_fadd_zeros: "foldl fadd 0 (replicate k 0) = 0"
  by (induction k) (simp_all add: fadd_0_0)

lemma foldl_fadd_twos:
  "j + 2 * int k < 2 ^ 24 \<Longrightarrow> 0 \<le> j \<Longrightarrow>
     foldl fadd (of_int j) (replicate k 2) = of_int (j + 2 * int k)"
proof (induction k arbitrary: j)
  case 0
  then show ?case by simp
next
  case (Suc k)
  have "fadd (of_int j) 2 = of_int (j + 2)"
    using fadd_int [of j 2] Suc.prems by simp
  then show ?case using Suc.IH [of "j + 2"] Suc.prems by simp
qed

text \<open>
  C5, as the code has it. After exactly 100 calls of \<^verbatim>\<open>add_sample\<close> on a new calibrator
  the baseline is the single-precision quotient by 100 of the running sum, which is
  accumulated from 0 in the order of the calls with every addition rounded to single
  precision; \<^verbatim>\<open>is_calibrated\<close> is true. Any further calls (the samples \<open>ys\<close>, then one
  more sample \<open>y\<close>) leave the calibrator as it was after the hundredth: still calibrated,
  same baseline, sample count still 100.
\<close>

theorem calibration_completes_and_saturates:
  assumes "length xs = 100"
  shows "get_baseline (foldl add_sample new_calibrator xs) = fdiv (foldl fadd 0 xs) 100
    \<and> is_calibrated (foldl add_sample new_calibrator xs)
    \<and> calibration_samples (foldl add_sample new_calibrator xs) = 100
    \<and> foldl add_sample new_calibrator (xs @ ys) = foldl add_sample new_calibrator xs
    \<and> add_sample (foldl add_sample new_calibrator (xs @ ys)) y = foldl add_sample new_calibrator xs
    \<and> is_calibrated (add_sample (foldl add_sample new_calibrator (xs @ ys)) y)
    \<and> get_baseline (add_sample (foldl add_sample new_calibrator (xs @ ys)) y)
        = fdiv (foldl fadd 0 xs) 100"
  using assms
  by (simp add: calibrated_after_100 foldl_add_sample_saturated add_sample_saturated
      get_baseline_def is_calibrated_def)

theorem calibration_completes_and_saturates_witness:
  "get_baseline (foldl add_sample new_calibrator (replicate 100 2)) = 2
    \<and> is_calibrated (foldl add_sample new_calibrator (replicate 100 2))
    \<and> foldl add_sample new_calibrator (replicate 100 2 @ [7, 9])
        = foldl add_sample new_calibrator (replicate 100 2)
    \<and> get_baseline (add_sample (foldl add_sample new_calibrator (replicate 100 2 @ [7, 9])) 40) = 2"
proof -
  have h: "length (replicate 100 (2::real)) = 100" by simp
  have s: "foldl fadd 0 (replicate 100 2) = 200"
    using foldl_fadd_twos [of 0 100] by simp
  have e: "fdiv (foldl fadd 0 (replicate 100 2)) 100 = 2"
    using round32_int [of 2] by (simp add: s fdiv_def)
  note t = calibration_completes_and_saturates [OF h, of "[7, 9]" 40, unfolded e]
  from t show ?thesis by blast
qed

text \<open>
  C5 as stated has the baseline equal to the sum of the samples divided by 100. After 99
  samples of 0 and one sample of 1 the sum divided by 100 is \<open>1 / 100\<close>, and the baseline
  is the single-precision number next to it, \<open>5368709 / 2 ^ 29\<close>.
\<close>

theorem calibration_baseline_counterexample:
  "length (replicate 99 0 @ [1 :: real]) = 100
   \<and> sum_list (replicate 99 0 @ [1 :: real]) / 100 = 1 / 100
   \<and> get_baseline (foldl add_sample new_calibrator (replicate 99 0 @ [1])) = 5368709 / 536870912
   \<and> get_baseline (foldl add_sample new_calibrator (replicate 99 0 @ [1]))
       \<noteq> sum_list (replicate 99 0 @ [1]) / 100"
proof -
  have s: "foldl fadd 0 (replicate 99 0 @ [1]) = 1"
    using round32_int [of 1] by (simp add: foldl_fadd_zeros fadd_def)
  have b: "get_baseline (foldl add_sample new_calibrator (replicate 99 0 @ [1]))
             = 5368709 / 536870912"
    using calibrated_after_100 [of "replicate 99 0 @ [1]"]
    by (simp add: get_baseline_def s fdiv_def round32_hundredth del: foldl_append)
  have "sum_list (replicate 99 0 @ [1 :: real]) / 100 = 1 / 100"
    by (simp add: sum_list_replicate)
  with b show ?thesis by simp
qed

text \<open>
  C8, as the code has it. While fewer than 100 samples have been added, the calibrator is
  not calibrated and \<^verbatim>\<open>get_baseline\<close> returns the accumulator, the running
  single-precision sum of the samples added so far; for a new calibrator, with no sample
  yet, that is 0.
\<close>

theorem get_baseline_before_calibration:
  assumes "length xs < 100"
  shows "\<not> is_calibrated (foldl add_sample new_calibrator xs)
     \<and> get_baseline (foldl add_sample new_calibrator xs) = foldl fadd 0 xs
     \<and> get_baseline new_calibrator = 0"
proof -
  have "get_baseline new_calibrator = 0"
    by (simp add: get_baseline_def new_calibrator_def)
  with assms show ?thesis
    by (simp add: add_sample_below is_calibrated_def get_baseline_def)
qed

theorem get_baseline_before_calibration_witness:
  "\<not> is_calibrated (foldl add_sample new_calibrator [5, 7])
   \<and> get_baseline (foldl add_sample new_calibrator [5, 7]) = 12"
proof -
  have "foldl fadd 0 [5, 7] = 12"
    using fadd_int [of 0 5] fadd_int [of 5 7] by simp
  with get_baseline_before_calibration [of "[5, 7]"] show ?thesis by simp
qed

text \<open>
  C8 as stated says 0 for every state before calibration completes. After one sample of
  5 mW the calibrator is not calibrated and \<^verbatim>\<open>get_baseline\<close> returns 5.
\<close>

theorem get_baseline_partial_counterexample:
  "\<not> is_calibrated (add_sample new_calibrator 5) \<and> get_baseline (add_sample new_calibrator 5) \<noteq> 0"
  using fadd_int [of 0 5]
  by (simp add: add_sample_def new_calibrator_def is_calibrated_def get_baseline_def Let_def)

subsection \<open>The engine after setup\<close>

lemma booted_eq:
  "booted = (new_engine 0 0 True)\<lparr>
     metrics := zero_metrics\<lparr>battery_voltage := 2600 * 3.3 * 2.0 / 4095.0\<rparr>,
     hw_calls := [Delay 500, EspPmConfigure 80 10]\<rparr>"
  by (simp add: booted_def initialize_def hw_at_def new_engine_def update_battery_status_def
      classify_battery_def issue_def Let_def zero_metrics_def set_energy_mode_def)

lemma booted_fields:
  "samples_to_process booted = 256"
  "preprocessed_audio booted \<noteq> None"
  "consecutive_silence (metrics booted) = 0"
  "current_energy_mode booted = ENERGY_ULTRA_ECO"
  by (simp_all add: booted_eq samples_to_process_def new_engine_def zero_metrics_def)

subsection \<open>The automatic mode policy\<close>

lemma set_energy_mode_deep_sleep:
  "current_energy_mode s \<noteq> ENERGY_DEEP_SLEEP \<Longrightarrow>
     is_deep_sleep (set_energy_mode hw ENERGY_DEEP_SLEEP s)"
  by (simp add: set_energy_mode_def)

lemma set_energy_mode_running:
  "m \<noteq> ENERGY_DEEP_SLEEP \<Longrightarrow>
     \<not> is_deep_sleep (set_energy_mode hw m s)
     \<and> current_energy_mode (engine_of (set_energy_mode hw m s)) = m"
  by (cases m)
    (simp_all add: set_energy_mode_def reconfigure_i2s_def setup_adaptive_i2s_def issue_def Let_def)

text \<open>
  C1, what the code does. In a cycle with the button up, no voice detected on the last
  preprocessing pass and more than 5000 ms since the last detected voice,
  \<^verbatim>\<open>manage_energy_modes\<close> tests \<^verbatim>\<open>battery_level <= BATTERY_LOW\<close> on an enumeration that
  counts from \<open>FULL = 0\<close> up to \<open>CRITICAL = 3\<close>: it requests \<open>DEEP_SLEEP\<close> for the levels
  \<open>FULL\<close>, \<open>GOOD\<close> and \<open>LOW\<close>, and \<open>ULTRA_ECO\<close> for \<open>CRITICAL\<close>. The claim has
  \<open>DEEP_SLEEP\<close> for \<open>LOW\<close> and \<open>CRITICAL\<close> and \<open>ULTRA_ECO\<close> for \<open>FULL\<close> and \<open>GOOD\<close>.
\<close>

theorem manage_energy_modes_voice_idle:
  assumes "\<not> button_low hw" "\<not> voice_detected (metrics s)"
    and "t - last_voice_time s > DEEP_SLEEP_TIMEOUT_MS"
  shows "manage_energy_modes hw t s =
           (if battery_level (metrics s) = BATTERY_CRITICAL
            then set_energy_mode hw ENERGY_ULTRA_ECO s
            else set_energy_mode hw ENERGY_DEEP_SLEEP s)
    \<and> (battery_level (metrics s) \<noteq> BATTERY_CRITICAL
         \<and> current_energy_mode s \<noteq> ENERGY_DEEP_SLEEP \<longrightarrow>
         is_deep_sleep (manage_energy_modes hw t s))
    \<and> (battery_level (metrics s) = BATTERY_CRITICAL \<longrightarrow>
         \<not> is_deep_sleep (manage_energy_modes hw t s)
         \<and> current_energy_mode (engine_of (manage_energy_modes hw t s)) = ENERGY_ULTRA_ECO)"
proof -
  have eq: "manage_energy_modes hw t s =
           (if battery_level (metrics s) = BATTERY_CRITICAL
            then set_energy_mode hw ENERGY_ULTRA_ECO s
            else set_energy_mode hw ENERGY_DEEP_SLEEP s)"
    using assms by (cases "battery_level (metrics s)") (simp_all add: manage_energy_modes_def)
  show ?thesis
    using set_energy_mode_deep_sleep [of s hw] set_energy_mode_running [of ENERGY_ULTRA_ECO hw s]
    by (simp add: eq)
qed

text \<open>
  The engine after setup, battery \<open>FULL\<close>, goes to deep sleep in the first cycle later
  than 5000 ms without voice; with the level \<open>CRITICAL\<close> the policy selects \<open>ULTRA_ECO\<close>.
\<close>

theorem manage_energy_modes_voice_idle_witness:
  "battery_level (metrics booted) = BATTERY_FULL
   \<and> is_deep_sleep (manage_energy_modes (hw_at 5001 []) 5001 booted)
   \<and> battery_level (metrics balanced_critical) = BATTERY_CRITICAL
   \<and> \<not> is_deep_sleep (manage_energy_modes (hw_at 5001 []) 5001 balanced_critical)
   \<and> current_energy_mode (engine_of (manage_energy_modes (hw_at 5001 []) 5001 balanced_critical))
       = ENERGY_ULTRA_ECO"
proof -
  have h: "\<not> button_low (hw_at 5001 [])"
    by (simp add: hw_at_def)
  have b: "\<not> voice_detected (metrics booted)"
    "5001 - last_voice_time booted > DEEP_SLEEP_TIMEOUT_MS"
    "battery_level (metrics booted) = BATTERY_FULL"
    "current_energy_mode booted \<noteq> ENERGY_DEEP_SLEEP"
    "battery_level (metrics booted) \<noteq> BATTERY_CRITICAL"
    by (simp_all add: booted_eq new_engine_def zero_metrics_def)
  have c: "\<not> voice_detected (metrics balanced_critical)"
    "5001 - last_voice_time balanced_critical > DEEP_SLEEP_TIMEOUT_MS"
    "battery_level (metrics balanced_critical) = BATTERY_CRITICAL"
    by (simp_all add: balanced_critical_def booted_eq new_engine_def zero_metrics_def)
  from manage_energy_modes_voice_idle [OF h b(1) b(2)] b(4) b(5)
  have 1: "is_deep_sleep (manage_energy_modes (hw_at 5001 []) 5001 booted)" by blast
  from manage_energy_modes_voice_idle [OF h c(1) c(2)] c(3)
  have 2: "\<not> is_deep_sleep (manage_energy_modes (hw_at 5001 []) 5001 balanced_critical)
     \<and> current_energy_mode (engine_of (manage_energy_modes (hw_at 5001 []) 5001 balanced_critical))
         = ENERGY_ULTRA_ECO" by blast
  from 1 2 b(3) c(3) show ?thesis by blast
qed

subsection \<open>Initialisation\<close>

lemma set_energy_mode_ultra_eco:
  "current_energy_mode s \<noteq> ENERGY_ULTRA_ECO \<Longrightarrow>
     current_buffer_size (engine_of (set_energy_mode hw ENERGY_ULTRA_ECO s)) = 128
     \<and> power_consumption_mw (metrics (engine_of (set_energy_mode hw ENERGY_ULTRA_ECO s))) = 25
     \<and> SetCpuFrequencyMhz 40 \<in> set (hw_calls (engine_of (set_energy_mode hw ENERGY_ULTRA_ECO s)))"
  by (simp add: set_energy_mode_def reconfigure_i2s_def setup_adaptive_i2s_def issue_def Let_def)

lemma new_engine_fields:
  "current_buffer_size (new_engine t1 t2 a) = 256"
  "power_consumption_mw (metrics (new_engine t1 t2 a)) = 0"
  "current_energy_mode (new_engine t1 t2 a) = ENERGY_ULTRA_ECO"
  "hw_calls (new_engine t1 t2 a) = []"
  "mic_active (new_engine t1 t2 a) = False"
  by (simp_all add: new_engine_def zero_metrics_def)

text \<open>
  \<^verbatim>\<open>initialize\<close> on a new engine: the battery reading either sends the device to deep sleep
  or leaves the mode alone, and the final \<^verbatim>\<open>set_energy_mode(ENERGY_ULTRA_ECO)\<close> finds the
  mode already set.
\<close>

lemma initialize_new_engine:
  "initialize hw (new_engine t1 t2 a) =
    (let v = real (unat (adc_raw hw)) * 3.3 * 2.0 / 4095.0;
         s = (new_engine t1 t2 a)\<lparr>
               metrics := zero_metrics\<lparr>battery_voltage := v, battery_level := classify_battery v\<rparr>,
               hw_calls := [Delay 500, EspPmConfigure 80 10]\<rparr>
     in if classify_battery v = BATTERY_CRITICAL
        then DeepSleep (s\<lparr>current_energy_mode := ENERGY_DEEP_SLEEP,
               hw_calls := [Delay 500, EspPmConfigure 80 10, FreeBuffers, EspDeepSleepStart]\<rparr>)
        else Continue (if tensorflow_setup_ok hw then s\<lparr>model_loaded := True\<rparr> else s))"
  by (simp add: initialize_def update_battery_status_def set_energy_mode_def Let_def issue_def
      new_engine_def zero_metrics_def cleanup_resources_def)

text \<open>
  C9. After the constructor and \<^verbatim>\<open>initialize\<close>, whatever the platform answers, the buffer
  size is still \<open>AUDIO_BUFFER_SIZE / 4 = 256\<close>, the power figure is still 0 and no
  \<^verbatim>\<open>setCpuFrequencyMhz\<close> call has been issued; unless the battery reading sent the device
  to deep sleep, the mode is \<open>ULTRA_ECO\<close>. A transition into \<open>ULTRA_ECO\<close> from another
  mode does apply the table: buffer size 128, power 25, CPU frequency 40 MHz.
\<close>

theorem initialize_keeps_constructor_parameters:
  "current_buffer_size (engine_of (initialize hw (new_engine t1 t2 a))) = AUDIO_BUFFER_SIZE div 4
   \<and> current_buffer_size (engine_of (initialize hw (new_engine t1 t2 a))) = 256
   \<and> power_consumption_mw (metrics (engine_of (initialize hw (new_engine t1 t2 a)))) = 0
   \<and> (\<forall>f. SetCpuFrequencyMhz f \<notin> set (hw_calls (engine_of (initialize hw (new_engine t1 t2 a)))))
   \<and> (\<not> is_deep_sleep (initialize hw (new_engine t1 t2 a)) \<longrightarrow>
        current_energy_mode (engine_of (initialize hw (new_engine t1 t2 a))) = ENERGY_ULTRA_ECO)
   \<and> (current_energy_mode s \<noteq> ENERGY_ULTRA_ECO \<longrightarrow>
        current_buffer_size (engine_of (set_energy_mode hw ENERGY_ULTRA_ECO s)) = 128
        \<and> power_consumption_mw (metrics (engine_of (set_energy_mode hw ENERGY_ULTRA_ECO s))) = 25
        \<and> SetCpuFrequencyMhz 40 \<in> set (hw_calls (engine_of (set_energy_mode hw ENERGY_ULTRA_ECO s))))"
  using set_energy_mode_ultra_eco [of s hw]
  by (simp add: initialize_new_engine Let_def new_engine_fields zero_metrics_def)

theorem initialize_keeps_constructor_parameters_witness:
  "\<not> is_deep_sleep (initialize (hw_at 0 []) (new_engine 0 0 True))
   \<and> current_energy_mode (engine_of (initialize (hw_at 0 []) (new_engine 0 0 True))) = ENERGY_ULTRA_ECO
   \<and> current_buffer_size (engine_of (initialize (hw_at 0 []) (new_engine 0 0 True))) = 256
   \<and> current_buffer_size (engine_of (set_energy_mode (hw_at 0 []) ENERGY_ULTRA_ECO balanced_critical))
       = 128"
proof -
  have a: "\<not> is_deep_sleep (initialize (hw_at 0 []) (new_engine 0 0 True))"
    by (simp add: initialize_new_engine Let_def hw_at_def classify_battery_def)
  have b: "current_energy_mode balanced_critical \<noteq> ENERGY_ULTRA_ECO"
    by (simp add: balanced_critical_def)
  from a b initialize_keeps_constructor_parameters [of "hw_at 0 []" 0 0 True balanced_critical]
  show ?thesis by blast
qed

subsection \<open>The energy loop\<close>

lemma sample_exact:
  "fdiv (real_of_int (sint (x :: 16 word))) 32768 = real_of_int (sint x) / 32768"
proof -
  have "- (2 ^ 15) \<le> sint x" "sint x < 2 ^ 15"
    using sint_ge [of x] sint_lt [of x] by simp_all
  then have "\<bar>sint x\<bar> < 2 ^ 24" by simp
  from round32_dyadic [OF this, of 15] show ?thesis by (simp add: fdiv_def)
qed

lemma round32_scaled30:
  assumes "fits24 z"
  shows "round32 (scaled30 z) = scaled30 z"
proof (cases "\<bar>z\<bar> < 2 ^ 24")
  case True
  from round32_dyadic [OF True, of 30] show ?thesis by (simp only: scaled30_def)
next
  case False
  with assms have m: "z mod 64 = 0" and b: "\<bar>z\<bar> < 2 ^ 30" by (simp_all add: fits24_def)
  from m have "64 dvd z" by presburger
  then obtain q where z: "z = 64 * q" by (auto elim: dvdE)
  with b have "\<bar>q\<bar> < 2 ^ 24" by simp
  from round32_dyadic [OF this, of 24] show ?thesis by (simp add: z scaled30_def)
qed

lemma scaled30_add: "scaled30 a + scaled30 b = scaled30 (a + b)"
  by (simp add: scaled30_def add_divide_distrib)

lemma scaled30_square:
  "real_of_int k / 32768 * (real_of_int k / 32768) = scaled30 (k * k)"
  by (simp add: scaled30_def)

lemma energy_step_exact:
  assumes "fits24 (sint x * sint x)" "fits24 (S + sint x * sint x)"
  shows "(let sample = fdiv (real_of_int (sint (x :: 16 word))) 32768
          in fadd (scaled30 S) (fmul sample sample))
         = scaled30 (S + sint x * sint x)"
  unfolding Let_def sample_exact fmul_def scaled30_square round32_scaled30 [OF assms(1)]
    fadd_def scaled30_add round32_scaled30 [OF assms(2)] ..

lemma energy_loop_exact:
  "exact_run S xs \<Longrightarrow>
     foldl (\<lambda>energy x. let sample = fdiv (real_of_int (sint x)) 32768
                        in fadd energy (fmul sample sample))
       (scaled30 S) xs
     = scaled30 (S + sum_list (map (\<lambda>x. sint x * sint x) xs))"
proof (induction xs arbitrary: S)
  case Nil
  then show ?case by simp
next
  case (Cons x xs)
  from Cons.prems have a: "fits24 (sint x * sint x)" "fits24 (S + sint x * sint x)"
    and r: "exact_run (S + sint x * sint x) xs" by simp_all
  have "foldl (\<lambda>energy x. let sample = fdiv (real_of_int (sint x)) 32768
                        in fadd energy (fmul sample sample))
       (scaled30 S) (x # xs)
     = foldl (\<lambda>energy x. let sample = fdiv (real_of_int (sint x)) 32768
                        in fadd energy (fmul sample sample))
       (scaled30 (S + sint x * sint x)) xs"
    unfolding foldl_Cons energy_step_exact [OF a] ..
  also have "\<dots> = scaled30 (S + sint x * sint x + sum_list (map (\<lambda>x. sint x * sint x) xs))"
    by (rule Cons.IH [OF r])
  finally show ?case by (simp add: add.assoc)
qed

lemma exact_run_zeros: "fits24 S \<Longrightarrow> exact_run S (replicate k 0)"
  by (induction k) (simp_all add: fits24_def)

lemma exact_run_append:
  "exact_run S (xs @ ys)
     = (exact_run S xs \<and> exact_run (S + sum_list (map (\<lambda>x. sint x * sint x) xs)) ys)"
  by (induction xs arbitrary: S) (auto simp: add.assoc)

lemma scaled30_0: "scaled30 0 = 0"
  by (simp add: scaled30_def)

lemma voice_energy_exact:
  assumes "exact_run 0 (take n buf)"
  shows "voice_energy buf n
           = fdiv (scaled30 (sum_list (map (\<lambda>x. sint x * sint x) (take n buf)))) (real n)"
  using energy_loop_exact [OF assms] unfolding voice_energy_def scaled30_0 by simp

lemma voice_energy_zeros: "voice_energy (replicate m 0) n = 0"
proof -
  have "exact_run 0 (take n (replicate m 0))"
    by (simp add: exact_run_zeros fits24_def)
  from voice_energy_exact [OF this] show ?thesis
    by (simp add: fdiv_def round32_0 scaled30_0 sum_list_replicate)
qed

lemma mean_square32_eq: "mean_square32 buf n = voice_energy buf n"
  by (simp add: mean_square32_def voice_energy_def foldl_map Let_def)

lemma sum_squares_scaled30:
  "sum_list (map (\<lambda>x. (real_of_int (sint x) / 32768)\<^sup>2) (xs :: 16 word list))
     = scaled30 (sum_list (map (\<lambda>x. sint x * sint x) xs))"
proof (induction xs)
  case Nil
  then show ?case by (simp add: scaled30_0)
next
  case (Cons a xs)
  have h: "(real_of_int (sint a) / 32768)\<^sup>2 = scaled30 (sint a * sint a)"
    unfolding power2_eq_square by (rule scaled30_square)
  show ?case
    unfolding list.map sum_list.Cons h Cons.IH scaled30_add ..
qed

lemma mean_square_scaled30:
  "mean_square buf n
     = scaled30 (sum_list (map (\<lambda>x. sint x * sint x) (take n buf))) / real n"
  unfolding mean_square_def sum_squares_scaled30 ..

lemma at_threshold_take:
  "take 256 at_threshold = [3589, 63, 6, 1, 1, 16384, 16384] @ replicate 249 0"
  by (simp add: at_threshold_def)

lemma at_threshold_sum:
  "sum_list (map (\<lambda>x. sint x * sint x) (take 256 at_threshold)) = 549755840"
  by (simp add: at_threshold_take sum_list_replicate)

lemma at_threshold_energy: "voice_energy at_threshold 256 = VOICE_DETECTION_THRESHOLD"
proof -
  have e: "exact_run 0 (take 256 at_threshold)"
    by (simp add: at_threshold_take exact_run_append exact_run_zeros fits24_def)
  have r: "round32 (8589935 / 4294967296) = 8589935 / 4294967296"
    using round32_dyadic [of 8589935 32] by simp
  show ?thesis
    unfolding voice_energy_exact [OF e] at_threshold_sum
    by (simp add: fdiv_def threshold_value scaled30_def r)
qed

lemma at_threshold_mean_square: "mean_square at_threshold 256 = 8589935 / 4294967296"
  by (simp add: mean_square_scaled30 at_threshold_sum scaled30_def)

lemma above_threshold_take:
  "take 256 above_threshold
     = [2611, 30, 4, 1, 1, 1, 4096, 4096, 16384, 16384] @ replicate 246 0"
  by (simp add: above_threshold_def)

lemma above_threshold_sum:
  "sum_list (map (\<lambda>x. sint x * sint x) (take 256 above_threshold)) = 577243584"
  by (simp add: above_threshold_take sum_list_replicate)

lemma above_threshold_energy: "voice_energy above_threshold 256 = round32 0.0021"
proof -
  have e: "exact_run 0 (take 256 above_threshold)"
    by (simp add: above_threshold_take exact_run_append exact_run_zeros fits24_def)
  have r: "round32 (9019431 / 4294967296) = 9019431 / 4294967296"
    using round32_dyadic [of 9019431 32] by simp
  show ?thesis
    unfolding voice_energy_exact [OF e] above_threshold_sum
    by (simp add: fdiv_def round32_0021 scaled30_def r)
qed

lemma loud_loop:
  "int j + int k < 2 ^ 24 \<Longrightarrow>
     foldl (\<lambda>energy x. let sample = fdiv (real_of_int (sint x)) 32768
                        in fadd energy (fmul sample sample))
       (of_nat j / 4) (replicate k (16384 :: 16 word)) = of_nat (j + k) / 4"
proof (induction k arbitrary: j)
  case 0
  then show ?case by simp
next
  case (Suc k)
  have s: "fdiv 16384 32768 = 1 / 2"
    using sample_exact [of 16384] by simp
  have q: "fmul (1 / 2) (1 / 2) = 1 / 4"
    using round32_dyadic [of 1 2] by (simp add: fmul_def)
  have "\<bar>int j + 1\<bar> < 2 ^ 24" using Suc.prems by simp
  from round32_dyadic [OF this, of 2]
  have a: "fadd (real j / 4) (1 / 4) = (1 + real j) / 4"
    by (simp add: fadd_def add_divide_distrib)
  have "foldl (\<lambda>energy x. let sample = fdiv (real_of_int (sint x)) 32768
                        in fadd energy (fmul sample sample))
       (of_nat (Suc j) / 4) (replicate k (16384 :: 16 word)) = of_nat (Suc j + k) / 4"
    using Suc.IH [of "Suc j"] Suc.prems by simp
  then show ?case by (simp add: s q a)
qed

lemma loud_energy: "voice_energy loud 256 = 1 / 4"
proof -
  have r: "round32 (1 / 4) = 1 / 4"
    using round32_dyadic [of 1 2] by simp
  from loud_loop [of 0 256] show ?thesis
    by (simp add: voice_energy_def loud_def fdiv_def r)
qed

subsection \<open>The silence counter\<close>

lemma samples_to_process_buffer [simp]:
  "samples_to_process (s\<lparr>audio_buffer := b\<rparr>) = samples_to_process s"
  by (simp add: samples_to_process_def)

text \<open>What one pass does, when the feature buffer exists.\<close>

lemma preprocess_effect:
  assumes "preprocessed_audio s \<noteq> None"
  shows "fst (preprocess_audio_efficient s)
           = (voice_energy (audio_buffer s) (samples_to_process s) > VOICE_DETECTION_THRESHOLD)"
    and "voice_detected (metrics (snd (preprocess_audio_efficient s)))
           = (voice_energy (audio_buffer s) (samples_to_process s) > VOICE_DETECTION_THRESHOLD)"
    and "consecutive_silence (metrics (snd (preprocess_audio_efficient s)))
           = (if voice_energy (audio_buffer s) (samples_to_process s) > VOICE_DETECTION_THRESHOLD
              then 0 else consecutive_silence (metrics s) + 1)"
    and "preprocessed_audio (snd (preprocess_audio_efficient s)) \<noteq> None"
    and "samples_to_process (snd (preprocess_audio_efficient s)) = samples_to_process s"
    and "current_energy_mode (snd (preprocess_audio_efficient s)) = current_energy_mode s"
proof -
  from assms obtain y where y: "preprocessed_audio s = Some y" by auto
  show "fst (preprocess_audio_efficient s)
           = (voice_energy (audio_buffer s) (samples_to_process s) > VOICE_DETECTION_THRESHOLD)"
    and "voice_detected (metrics (snd (preprocess_audio_efficient s)))
           = (voice_energy (audio_buffer s) (samples_to_process s) > VOICE_DETECTION_THRESHOLD)"
    and "consecutive_silence (metrics (snd (preprocess_audio_efficient s)))
           = (if voice_energy (audio_buffer s) (samples_to_process s) > VOICE_DETECTION_THRESHOLD
              then 0 else consecutive_silence (metrics s) + 1)"
    and "preprocessed_audio (snd (preprocess_audio_efficient s)) \<noteq> None"
    and "samples_to_process (snd (preprocess_audio_efficient s)) = samples_to_process s"
    and "current_energy_mode (snd (preprocess_audio_efficient s)) = current_energy_mode s"
    by (simp_all add: preprocess_audio_efficient_def Let_def issue_def samples_to_process_def y)
qed

lemma silent_passes:
  assumes "preprocessed_audio s \<noteq> None"
    and "\<forall>b\<in>set bs. \<not> voice_energy b (samples_to_process s) > VOICE_DETECTION_THRESHOLD"
  shows "consecutive_silence (metrics (preprocess_passes bs s))
           = consecutive_silence (metrics s) + of_nat (length bs)
         \<and> current_energy_mode (preprocess_passes bs s) = current_energy_mode s
         \<and> preprocessed_audio (preprocess_passes bs s) \<noteq> None
         \<and> samples_to_process (preprocess_passes bs s) = samples_to_process s"
  using assms
proof (induction bs arbitrary: s)
  case Nil
  then show ?case by simp
next
  case (Cons b bs)
  let ?s1 = "snd (preprocess_audio_efficient (s\<lparr>audio_buffer := b\<rparr>))"
  have pa: "preprocessed_audio (s\<lparr>audio_buffer := b\<rparr>) \<noteq> None" using Cons.prems by simp
  have quiet: "\<not> voice_energy b (samples_to_process s) > VOICE_DETECTION_THRESHOLD"
    using Cons.prems by simp
  have c1: "consecutive_silence (metrics ?s1) = consecutive_silence (metrics s) + 1"
    using preprocess_effect(3) [OF pa] quiet by simp
  have n1: "samples_to_process ?s1 = samples_to_process s"
    using preprocess_effect(5) [OF pa] by simp
  have m1: "current_energy_mode ?s1 = current_energy_mode s"
    using preprocess_effect(6) [OF pa] by simp
  have "consecutive_silence (metrics (preprocess_passes bs ?s1))
           = consecutive_silence (metrics ?s1) + of_nat (length bs)
         \<and> current_energy_mode (preprocess_passes bs ?s1) = current_energy_mode ?s1
         \<and> preprocessed_audio (preprocess_passes bs ?s1) \<noteq> None
         \<and> samples_to_process (preprocess_passes bs ?s1) = samples_to_process ?s1"
    using Cons.IH [of ?s1] preprocess_effect(4) [OF pa] Cons.prems(2) n1 by simp
  with c1 m1 n1 show ?case by (simp add: add.assoc add.commute)
qed

text \<open>The pass that takes the counter from 255 to 0 switches nothing off.\<close>

lemma wrap_step:
  assumes "preprocessed_audio s \<noteq> None" "consecutive_silence (metrics s) = 255"
    and "\<not> voice_energy (audio_buffer s) (samples_to_process s) > VOICE_DETECTION_THRESHOLD"
  shows "consecutive_silence (metrics (snd (preprocess_audio_efficient s))) = 0
     \<and> mic_active (snd (preprocess_audio_efficient s)) = mic_active s
     \<and> i2s_installed (snd (preprocess_audio_efficient s)) = i2s_installed s
     \<and> hw_calls (snd (preprocess_audio_efficient s)) = hw_calls s"
proof -
  from assms obtain y where y: "preprocessed_audio s = Some y" by auto
  from assms(2,3) show ?thesis
    by (simp add: preprocess_audio_efficient_def Let_def issue_def samples_to_process_def y)
qed

text \<open>
  C10. \<open>consecutive_silence\<close> is an 8-bit counter that every preprocessing pass without
  voice increments, with no upper limit in the code. Over any run of silent passes (the
  feature buffer being allocated) its value is the old value plus the number of passes,
  modulo 256. So 256 silent passes bring it back to where it was; starting from 0 it is 0
  again, the conditions \<open>> 10\<close> (microphone shutdown) and \<open>> 5\<close> (light sleep in
  \<open>ULTRA_ECO\<close>) are false again and \<^verbatim>\<open>adaptive_sleep\<close> falls back to the plain 100 ms
  delay. The pass from 255 to 0 leaves the microphone as it is. A pass with voice resets
  the counter to 0.
\<close>

theorem consecutive_silence_wraps:
  assumes "preprocessed_audio s \<noteq> None"
    and "\<forall>b\<in>set bs. \<not> voice_energy b (samples_to_process s) > VOICE_DETECTION_THRESHOLD"
  shows "unat (consecutive_silence (metrics (preprocess_passes bs s)))
           = (unat (consecutive_silence (metrics s)) + length bs) mod 256
    \<and> (length bs = 256 \<longrightarrow>
         consecutive_silence (metrics (preprocess_passes bs s)) = consecutive_silence (metrics s))
    \<and> (length bs = 256 \<and> consecutive_silence (metrics s) = 0 \<longrightarrow>
         consecutive_silence (metrics (preprocess_passes bs s)) = 0
         \<and> \<not> consecutive_silence (metrics (preprocess_passes bs s)) > 10
         \<and> \<not> consecutive_silence (metrics (preprocess_passes bs s)) > 5
         \<and> (current_energy_mode s = ENERGY_ULTRA_ECO \<longrightarrow>
              adaptive_sleep (preprocess_passes bs s) = issue (Delay 100) (preprocess_passes bs s)))
    \<and> (consecutive_silence (metrics s) = 255
         \<and> \<not> voice_energy (audio_buffer s) (samples_to_process s) > VOICE_DETECTION_THRESHOLD \<longrightarrow>
         consecutive_silence (metrics (snd (preprocess_audio_efficient s))) = 0
         \<and> mic_active (snd (preprocess_audio_efficient s)) = mic_active s
         \<and> hw_calls (snd (preprocess_audio_efficient s)) = hw_calls s)
    \<and> (voice_energy b (samples_to_process s) > VOICE_DETECTION_THRESHOLD \<longrightarrow>
         consecutive_silence
           (metrics (snd (preprocess_audio_efficient (s\<lparr>audio_buffer := b\<rparr>)))) = 0)"
proof -
  note sp = silent_passes [OF assms]
  from sp have a: "consecutive_silence (metrics (preprocess_passes bs s))
           = consecutive_silence (metrics s) + of_nat (length bs)" by blast
  from sp have m: "current_energy_mode (preprocess_passes bs s) = current_energy_mode s" by blast
  have 1: "unat (consecutive_silence (metrics (preprocess_passes bs s)))
           = (unat (consecutive_silence (metrics s)) + length bs) mod 256"
    by (simp add: a unat_word_ariths unat_of_nat mod_simps)
  have 2: "length bs = 256 \<longrightarrow>
         consecutive_silence (metrics (preprocess_passes bs s)) = consecutive_silence (metrics s)"
    by (simp add: a)
  have 3: "length bs = 256 \<and> consecutive_silence (metrics s) = 0 \<longrightarrow>
         consecutive_silence (metrics (preprocess_passes bs s)) = 0
         \<and> \<not> consecutive_silence (metrics (preprocess_passes bs s)) > 10
         \<and> \<not> consecutive_silence (metrics (preprocess_passes bs s)) > 5
         \<and> (current_energy_mode s = ENERGY_ULTRA_ECO \<longrightarrow>
              adaptive_sleep (preprocess_passes bs s) = issue (Delay 100) (preprocess_passes bs s))"
    by (simp add: a m adaptive_sleep_def)
  have 4: "consecutive_silence (metrics s) = 255
         \<and> \<not> voice_energy (audio_buffer s) (samples_to_process s) > VOICE_DETECTION_THRESHOLD \<longrightarrow>
         consecutive_silence (metrics (snd (preprocess_audio_efficient s))) = 0
         \<and> mic_active (snd (preprocess_audio_efficient s)) = mic_active s
         \<and> hw_calls (snd (preprocess_audio_efficient s)) = hw_calls s"
    using wrap_step [OF assms(1)] by blast
  have pa: "preprocessed_audio (s\<lparr>audio_buffer := b\<rparr>) \<noteq> None" using assms(1) by simp
  have 5: "voice_energy b (samples_to_process s) > VOICE_DETECTION_THRESHOLD \<longrightarrow>
         consecutive_silence
           (metrics (snd (preprocess_audio_efficient (s\<lparr>audio_buffer := b\<rparr>)))) = 0"
    using preprocess_effect(3) [OF pa] by simp
  from 1 2 3 4 5 show ?thesis by blast
qed

text \<open>
  On the engine after setup: 256 silent passes leave the counter at 0, 20 silent passes
  leave it at 20, and a loud buffer after those 20 resets it.
\<close>

theorem consecutive_silence_wraps_witness:
  "consecutive_silence (metrics (preprocess_passes (replicate 256 silence) booted)) = 0
   \<and> \<not> consecutive_silence (metrics (preprocess_passes (replicate 256 silence) booted)) > 10
   \<and> \<not> consecutive_silence (metrics (preprocess_passes (replicate 256 silence) booted)) > 5
   \<and> unat (consecutive_silence (metrics (preprocess_passes (replicate 20 silence) booted))) = 20
   \<and> consecutive_silence (metrics (snd (preprocess_audio_efficient
        ((preprocess_passes (replicate 20 silence) booted)\<lparr>audio_buffer := loud\<rparr>)))) = 0"
proof -
  have q: "\<forall>b\<in>set (replicate n silence).
             \<not> voice_energy b (samples_to_process booted) > VOICE_DETECTION_THRESHOLD" for n
    by (simp add: silence_def voice_energy_zeros threshold_value)
  note t1 = consecutive_silence_wraps [OF booted_fields(2) q, of 256]
  note t2 = consecutive_silence_wraps [OF booted_fields(2) q, of 20]
  let ?s20 = "preprocess_passes (replicate 20 silence) booted"
  from silent_passes [OF booted_fields(2) q, of 20]
  have p20: "preprocessed_audio ?s20 \<noteq> None" and n20: "samples_to_process ?s20 = 256"
    by (simp_all add: booted_fields)
  have l: "voice_energy loud (samples_to_process ?s20) > VOICE_DETECTION_THRESHOLD"
    by (simp add: n20 loud_energy threshold_value)
  have e: "\<forall>b\<in>set []. \<not> voice_energy b (samples_to_process ?s20) > VOICE_DETECTION_THRESHOLD"
    by simp
  note t3 = consecutive_silence_wraps [OF p20 e, of loud]
  from t1 t2 t3 l show ?thesis by (simp add: booted_fields)
qed

subsection \<open>The loop body under silence\<close>

lemma preprocess_frame:
  "skipped_inferences (metrics (snd (preprocess_audio_efficient s))) = skipped_inferences (metrics s)"
  "total_inferences (metrics (snd (preprocess_audio_efficient s))) = total_inferences (metrics s)"
  "inference_skip_counter (snd (preprocess_audio_efficient s)) = inference_skip_counter s"
  by (simp_all add: preprocess_audio_efficient_def Let_def issue_def)

lemma should_process_audio_frame:
  "metrics (snd (should_process_audio t s)) = metrics s"
  "inference_skip_counter (snd (should_process_audio t s)) = inference_skip_counter s"
  by (simp_all add: should_process_audio_def Let_def)

lemma smart_audio_capture_frame:
  "skipped_inferences (metrics (snd (smart_audio_capture hw s))) = skipped_inferences (metrics s)"
  "total_inferences (metrics (snd (smart_audio_capture hw s))) = total_inferences (metrics s)"
  "inference_skip_counter (snd (smart_audio_capture hw s)) = inference_skip_counter s"
  by (simp_all add: smart_audio_capture_def ensure_mic_active_def setup_adaptive_i2s_def
      issue_def Let_def split_beta)

lemma report_frame:
  "last_energy_report (snd (should_process_audio t s)) = last_energy_report s"
  "last_energy_report (snd (smart_audio_capture hw s)) = last_energy_report s"
  "last_energy_report (snd (preprocess_audio_efficient s)) = last_energy_report s"
  by (simp_all add: should_process_audio_def smart_audio_capture_def ensure_mic_active_def
      setup_adaptive_i2s_def preprocess_audio_efficient_def issue_def Let_def split_beta)

text \<open>
  C2, what the code does. In a cycle where processing is due, the capture succeeds and
  \<^verbatim>\<open>preprocess_audio_efficient\<close> returns false (no voice), \<^verbatim>\<open>run\<close> does not call
  \<^verbatim>\<open>should_run_inference\<close>: the pipeline ends with the state preprocessing left, so
  \<open>skipped_inferences\<close>, \<open>total_inferences\<close> and the gate's own skip counter are what
  they were before the cycle. The claim has the gate consulted in such a cycle and
  \<open>skipped_inferences\<close> incremented when it says no.
\<close>

theorem process_audio_silent_cycle:
  assumes "fst (should_process_audio t s)"
    and "fst (smart_audio_capture hw (snd (should_process_audio t s)))"
    and "\<not> fst (preprocess_audio_efficient
                 (snd (smart_audio_capture hw (snd (should_process_audio t s)))))"
  shows "process_audio hw t s =
           snd (preprocess_audio_efficient
                  (snd (smart_audio_capture hw (snd (should_process_audio t s)))))
    \<and> skipped_inferences (metrics (process_audio hw t s)) = skipped_inferences (metrics s)
    \<and> inference_skip_counter (process_audio hw t s) = inference_skip_counter s
    \<and> total_inferences (metrics (process_audio hw t s)) = total_inferences (metrics s)"
proof -
  have eq: "process_audio hw t s =
           snd (preprocess_audio_efficient
                  (snd (smart_audio_capture hw (snd (should_process_audio t s)))))"
    using assms by (simp add: process_audio_def split_beta)
  show ?thesis
    by (simp add: eq preprocess_frame smart_audio_capture_frame should_process_audio_frame)
qed

text \<open>
  The first cycle of the engine after setup that is due (at 600 ms), capturing 256 samples
  of silence: \<^verbatim>\<open>run\<close> returns, no voice is detected, the gate would say no if it were
  asked now, and yet \<open>skipped_inferences\<close> is 0, as are the gate's counter and
  \<open>total_inferences\<close>.
\<close>

theorem process_audio_silent_cycle_witness:
  "run silent_cycle booted = Continue (adaptive_sleep (process_audio silent_cycle 600 booted))
   \<and> \<not> voice_detected (metrics (process_audio silent_cycle 600 booted))
   \<and> \<not> fst (should_run_inference (process_audio silent_cycle 600 booted))
   \<and> skipped_inferences (metrics (process_audio silent_cycle 600 booted)) = 0
   \<and> inference_skip_counter (process_audio silent_cycle 600 booted) = 0
   \<and> total_inferences (metrics (process_audio silent_cycle 600 booted)) = 0"
proof -
  let ?a = "snd (should_process_audio 600 booted)"
  let ?b = "snd (smart_audio_capture silent_cycle ?a)"
  have due: "fst (should_process_audio 600 booted)"
    by (simp add: should_process_audio_def booted_eq new_engine_def)
  have a: "?a = booted\<lparr>last_audio_process := 600\<rparr>"
    by (simp add: should_process_audio_def booted_eq new_engine_def)
  have cap: "fst (smart_audio_capture silent_cycle ?a)"
    and buf: "audio_buffer ?b = replicate 1024 0"
    and pa: "preprocessed_audio ?b \<noteq> None"
    and mode: "current_energy_mode ?b = ENERGY_ULTRA_ECO"
    unfolding a
    by (simp_all add: smart_audio_capture_def ensure_mic_active_def setup_adaptive_i2s_def
        issue_def Let_def silent_cycle_def hw_at_def booted_eq new_engine_def
        replicate_add [symmetric])
  have nov: "\<not> fst (preprocess_audio_efficient ?b)"
    using preprocess_effect(1) [OF pa] by (simp add: buf voice_energy_zeros threshold_value)
  note t = process_audio_silent_cycle [OF due cap nov]
  note eq = t [THEN conjunct1]
  have zero: "skipped_inferences (metrics booted) = 0" "inference_skip_counter booted = 0"
    "total_inferences (metrics booted) = 0"
    by (simp_all add: booted_eq new_engine_def zero_metrics_def)
  from t [THEN conjunct2] zero
  have z: "skipped_inferences (metrics (process_audio silent_cycle 600 booted)) = 0"
    "inference_skip_counter (process_audio silent_cycle 600 booted) = 0"
    "total_inferences (metrics (process_audio silent_cycle 600 booted)) = 0"
    by simp_all
  have quiet: "\<not> voice_detected (metrics (process_audio silent_cycle 600 booted))"
    using preprocess_effect(2) [OF pa] by (simp add: eq buf voice_energy_zeros threshold_value)
  have m: "current_energy_mode (process_audio silent_cycle 600 booted) = ENERGY_ULTRA_ECO"
    using preprocess_effect(6) [OF pa] mode by (simp add: eq)
  have gate: "\<not> fst (should_run_inference (process_audio silent_cycle 600 booted))"
    using quiet m z by (simp add: should_run_inference_def Let_def)
  have "last_energy_report (process_audio silent_cycle 600 booted) = last_energy_report booted"
    unfolding eq by (simp add: report_frame)
  then have ler: "last_energy_report (process_audio silent_cycle 600 booted) = 0"
    by (simp add: booted_eq new_engine_def)
  have b: "last_battery_check booted = 0" "last_voice_time booted = 0"
    "last_activity_time booted = 0" "\<not> voice_detected (metrics booted)"
    by (simp_all add: booted_eq new_engine_def zero_metrics_def)
  have h: "millis_now silent_cycle = 600" "\<not> button_low silent_cycle"
    by (simp_all add: silent_cycle_def hw_at_def)
  have r: "run silent_cycle booted
             = Continue (adaptive_sleep (process_audio silent_cycle 600 booted))"
    by (simp add: run_def manage_energy_modes_def Let_def b h ler)
  from z quiet gate r show ?thesis by simp
qed

subsection \<open>The detection threshold\<close>

text \<open>
  C7, as the code has it. With the feature buffer allocated,
  \<^verbatim>\<open>preprocess_audio_efficient\<close> declares voice iff the energy it computes strictly
  exceeds the single-precision constant \<^verbatim>\<open>0.002f\<close>, which is \<open>8589935 / 2 ^ 32\<close>. The
  energy is the mean square of the first \<open>min(current_buffer_size, INPUT_FEATURES)\<close>
  samples, each divided by 32768, computed in single precision: the squares are added in
  order, every operation rounded. A buffer whose computed energy is exactly \<^verbatim>\<open>0.002f\<close> is
  not detected; one whose computed energy is \<^verbatim>\<open>0.0021f\<close> is detected.
\<close>

theorem voice_detection_threshold:
  assumes "preprocessed_audio s \<noteq> None"
  shows "(fst (preprocess_audio_efficient s) \<longleftrightarrow>
            mean_square32 (audio_buffer s) (min (unat (current_buffer_size s)) INPUT_FEATURES)
              > VOICE_DETECTION_THRESHOLD)
    \<and> (voice_detected (metrics (snd (preprocess_audio_efficient s))) \<longleftrightarrow>
            mean_square32 (audio_buffer s) (min (unat (current_buffer_size s)) INPUT_FEATURES)
              > VOICE_DETECTION_THRESHOLD)
    \<and> VOICE_DETECTION_THRESHOLD = round32 0.002
    \<and> VOICE_DETECTION_THRESHOLD = 8589935 / 2 ^ 32
    \<and> (mean_square32 (audio_buffer s) (min (unat (current_buffer_size s)) INPUT_FEATURES)
          = VOICE_DETECTION_THRESHOLD \<longrightarrow>
        \<not> fst (preprocess_audio_efficient s)
        \<and> \<not> voice_detected (metrics (snd (preprocess_audio_efficient s))))
    \<and> (mean_square32 (audio_buffer s) (min (unat (current_buffer_size s)) INPUT_FEATURES)
          = round32 0.0021 \<longrightarrow>
        fst (preprocess_audio_efficient s)
        \<and> voice_detected (metrics (snd (preprocess_audio_efficient s))))"
proof -
  have n: "min (unat (current_buffer_size s)) INPUT_FEATURES = samples_to_process s"
    by (simp add: samples_to_process_def)
  have v: "VOICE_DETECTION_THRESHOLD = 8589935 / 2 ^ 32"
    by (simp add: threshold_value)
  have above: "round32 0.0021 > VOICE_DETECTION_THRESHOLD"
    by (simp add: round32_0021 threshold_value)
  from preprocess_effect(1,2) [OF assms] above v show ?thesis
    unfolding n mean_square32_eq by (auto simp: VOICE_DETECTION_THRESHOLD_def)
qed

text \<open>
  On the engine after setup, which processes 256 samples: the buffer \<open>at_threshold\<close> has
  the computed energy \<^verbatim>\<open>0.002f\<close> and is not detected, the buffer \<open>above_threshold\<close> has
  \<^verbatim>\<open>0.0021f\<close> and is detected.
\<close>

theorem voice_detection_threshold_witness:
  "mean_square32 at_threshold 256 = VOICE_DETECTION_THRESHOLD
   \<and> \<not> fst (preprocess_audio_efficient (booted\<lparr>audio_buffer := at_threshold\<rparr>))
   \<and> mean_square32 above_threshold 256 = round32 0.0021
   \<and> fst (preprocess_audio_efficient (booted\<lparr>audio_buffer := above_threshold\<rparr>))"
proof -
  have p: "preprocessed_audio (booted\<lparr>audio_buffer := b\<rparr>) \<noteq> None" for b
    using booted_fields(2) by simp
  have n: "min (unat (current_buffer_size (booted\<lparr>audio_buffer := b\<rparr>))) INPUT_FEATURES = 256"
    for b
    using booted_fields(1) by (simp add: samples_to_process_def)
  have a: "mean_square32 at_threshold 256 = VOICE_DETECTION_THRESHOLD"
    by (simp only: mean_square32_eq at_threshold_energy)
  have b: "mean_square32 above_threshold 256 = round32 0.0021"
    by (simp only: mean_square32_eq above_threshold_energy)
  have ab: "audio_buffer (booted\<lparr>audio_buffer := b\<rparr>) = b" for b
    by simp
  note t1 = voice_detection_threshold [OF p, of at_threshold, unfolded n ab]
  note t2 = voice_detection_threshold [OF p, of above_threshold, unfolded n ab]
  from t1 a
  have 1: "\<not> fst (preprocess_audio_efficient (booted\<lparr>audio_buffer := at_threshold\<rparr>))"
    by blast
  from t2 b
  have 2: "fst (preprocess_audio_efficient (booted\<lparr>audio_buffer := above_threshold\<rparr>))"
    by blast
  from a b 1 2 show ?thesis by blast
qed

text \<open>
  C7 as stated has voice detected iff the mean square of the normalised samples exceeds
  0.002. The 256 samples of \<open>at_threshold\<close> have the mean square \<open>8589935 / 2 ^ 32\<close>,
  which is above 0.002, and the engine after setup does not detect voice in them: no
  operation of the energy loop rounds on this buffer (so a fused multiply-add gives the
  same result), the computed energy is the mean square, and it equals the constant
  \<^verbatim>\<open>0.002f\<close> it is compared with.
\<close>

theorem voice_detection_counterexample:
  "min (unat (current_buffer_size (booted\<lparr>audio_buffer := at_threshold\<rparr>))) INPUT_FEATURES = 256
   \<and> mean_square at_threshold 256 = 8589935 / 2 ^ 32
   \<and> mean_square at_threshold 256 > 0.002
   \<and> \<not> fst (preprocess_audio_efficient (booted\<lparr>audio_buffer := at_threshold\<rparr>))
   \<and> \<not> voice_detected
         (metrics (snd (preprocess_audio_efficient (booted\<lparr>audio_buffer := at_threshold\<rparr>))))"
proof -
  have p: "preprocessed_audio (booted\<lparr>audio_buffer := at_threshold\<rparr>) \<noteq> None"
    and n: "samples_to_process (booted\<lparr>audio_buffer := at_threshold\<rparr>) = 256"
    using booted_fields(1,2) by simp_all
  have m: "min (unat (current_buffer_size (booted\<lparr>audio_buffer := at_threshold\<rparr>))) INPUT_FEATURES
             = 256"
    using n by (simp add: samples_to_process_def)
  have e: "voice_energy (audio_buffer (booted\<lparr>audio_buffer := at_threshold\<rparr>))
             (samples_to_process (booted\<lparr>audio_buffer := at_threshold\<rparr>))
           = VOICE_DETECTION_THRESHOLD"
    unfolding n by (simp add: at_threshold_energy)
  from preprocess_effect(1,2) [OF p] e
  have q: "\<not> fst (preprocess_audio_efficient (booted\<lparr>audio_buffer := at_threshold\<rparr>))"
    "\<not> voice_detected
         (metrics (snd (preprocess_audio_efficient (booted\<lparr>audio_buffer := at_threshold\<rparr>))))"
    by simp_all
  have "mean_square at_threshold 256 = 8589935 / 2 ^ 32" "mean_square at_threshold 256 > 0.002"
    by (simp_all add: at_threshold_mean_square)
  with m q show ?thesis by blast
qed

end
